theory Spec2Isabelle
  imports Complex_Main "HOL-Library.Word" "HOL-Library.Sublist" "HOL-Library.AList"
    "HOL-Library.Char_ord" "HOL-Library.List_Lexorder"
begin

unbundle bit_operations_syntax

section \<open>Bytes, errors and Go slicing\<close>

text \<open>
  A Go \<^verbatim>\<open>[]byte\<close> is a \<^typ>\<open>string\<close> (a list of 8-bit characters). Byte strings are
  ordered as \<^verbatim>\<open>bytes.Compare\<close> orders them: lexicographically, bytes as unsigned numbers.
  Every error value the modelled code returns, and the run-time panic of an out-of-range
  slice expression, is a constructor of \<open>error\<close>; a fallible function returns
  \<open>error + 'a\<close> with \<open>Inl\<close> the error.
\<close>

type_synonym bytes = string

datatype error =
  ErrNotFound        \<comment> \<open>the store has no entry for the key (\<^verbatim>\<open>IsErrNotFound\<close>)\<close>
  | ErrKeyNotFound
  | ErrTypeMismatch
  | ErrInvalidLength
  | ErrStore         \<comment> \<open>any other failure reported by the store\<close>
  | Panic            \<comment> \<open>slice bounds or index out of range\<close>

text \<open>
  The slice expression \<^verbatim>\<open>s[lo:hi]\<close>. Go checks \<^verbatim>\<open>hi\<close> against the capacity of
  \<^verbatim>\<open>s\<close>; the model takes the capacity of every slice to be its length, so a slice
  expression that reaches past the length panics.
\<close>

definition slice :: "bytes \<Rightarrow> int \<Rightarrow> int \<Rightarrow> error + bytes" where
  "slice s lo hi =
     (if 0 \<le> lo \<and> lo \<le> hi \<and> hi \<le> int (length s)
      then Inr (take (nat (hi - lo)) (drop (nat lo) s))
      else Inl Panic)"

definition slice_from :: "bytes \<Rightarrow> int \<Rightarrow> error + bytes" where
  "slice_from s lo = slice s lo (int (length s))"

definition slice_to :: "bytes \<Rightarrow> int \<Rightarrow> error + bytes" where
  "slice_to s hi = slice s 0 hi"

text \<open>\<^verbatim>\<open>bytes.Index(key, []byte{c})\<close>: the index of the first \<open>c\<close>, or \<open>-1\<close>.\<close>

fun index_from :: "bytes \<Rightarrow> char \<Rightarrow> int \<Rightarrow> int" where
  "index_from [] c i = - 1"
| "index_from (x # xs) c i = (if x = c then i else index_from xs c (i + 1))"

definition bytes_Index :: "bytes \<Rightarrow> char \<Rightarrow> int" where
  "bytes_Index s c = index_from s c 0"

definition HasPrefix :: "bytes \<Rightarrow> bytes \<Rightarrow> bool" where
  "HasPrefix k p = prefix p k"

section \<open>Integer codecs\<close>

text \<open>
  Go's \<^verbatim>\<open>int64\<close> is an \<^typ>\<open>int\<close> kept in range by \<open>int64\<close>, the two's-complement
  wrap-around, applied wherever the code adds or subtracts. \<open>be_bytes n v\<close> is the
  \<open>n\<close>-byte big-endian form of \<open>v\<close> (\<^verbatim>\<open>binary.BigEndian.PutUint64\<close> for \<open>n = 8\<close>) and
  \<open>be_nat\<close> reads it back.
\<close>

definition int64 :: "int \<Rightarrow> int" where
  "int64 x = signed_take_bit 63 x"

definition be_bytes :: "nat \<Rightarrow> nat \<Rightarrow> bytes" where
  "be_bytes n v = map (\<lambda>i. char_of (v div 256 ^ i)) (rev [0..<n])"

definition be_nat :: "bytes \<Rightarrow> nat" where
  "be_nat bs = foldl (\<lambda>a c. a * 256 + of_char c) 0 bs"

definition PutUint64 :: "int \<Rightarrow> bytes" where
  "PutUint64 x = be_bytes 8 (nat (x mod 2 ^ 64))"

definition Uint64_int64 :: "bytes \<Rightarrow> int" where
  "Uint64_int64 bs = int64 (int (be_nat bs))"

section \<open>Key codec\<close>

text \<open>
  Modelled from the spec: the database id type \<^verbatim>\<open>DBID\<close> with its methods
  \<^verbatim>\<open>DBID.Bytes\<close> and \<^verbatim>\<open>toDBID\<close> (db.go, not among the sources). The spec gives the
  db id as a 3-byte big-endian integer inside every key.
\<close>

type_synonym DBID = nat

definition DBID_Bytes :: "DBID \<Rightarrow> bytes" where
  "DBID_Bytes d = be_bytes 3 d"

definition toDBID :: "bytes \<Rightarrow> DBID" where
  "toDBID v = be_nat v"

text \<open>\<^verbatim>\<open>splitMetaKey\<close> (expire.go): split a meta key with format \<^verbatim>\<open>{namespace}:{id}:M:{key}\<close>.\<close>

definition splitMetaKey :: "bytes \<Rightarrow> error + (bytes \<times> DBID \<times> bytes)" where
  "splitMetaKey k =
     (let idx = bytes_Index k (CHR '':'') in
      case slice_to k idx of Inl e \<Rightarrow> Inl e | Inr namespace \<Rightarrow>
      (case slice k (idx + 1) (idx + 4) of Inl e \<Rightarrow> Inl e | Inr d \<Rightarrow>
      (case slice_from k (idx + 6) of Inl e \<Rightarrow> Inl e | Inr rawkey \<Rightarrow>
         Inr (namespace, toDBID d, rawkey))))"

section \<open>The transactional store\<close>

text \<open>
  The store is the external collaborator behind \<^verbatim>\<open>store.Transaction\<close>: a snapshot of
  entries read and written through \<^verbatim>\<open>Get\<close>, \<^verbatim>\<open>Set\<close>, \<^verbatim>\<open>Delete\<close> and \<^verbatim>\<open>Iter\<close>.
  \<open>kv\<close> holds the entries. \<open>unavailable\<close> marks the keys on which the store fails: every
  call on such a key returns \<open>ErrStore\<close>, which gives each \<^verbatim>\<open>if err != nil\<close> of the code a
  branch that can be taken. \<open>oplog\<close> records, in order, every write, delete, seek and
  garbage collection issued through the transaction.
\<close>

datatype op = OpSet bytes bytes | OpDelete bytes | OpSeek bytes | OpGC bytes

fun touched :: "op \<Rightarrow> bytes" where
  "touched (OpSet k v) = k"
| "touched (OpDelete k) = k"
| "touched (OpSeek k) = k"
| "touched (OpGC k) = k"

record Store =
  kv :: "(bytes \<times> bytes) list"
  unavailable :: "bytes \<Rightarrow> bool"
  oplog :: "op list"

definition txn_Get :: "Store \<Rightarrow> bytes \<Rightarrow> error + bytes" where
  "txn_Get s k =
     (if unavailable s k then Inl ErrStore
      else case map_of (kv s) k of None \<Rightarrow> Inl ErrNotFound | Some v \<Rightarrow> Inr v)"

definition txn_Set :: "Store \<Rightarrow> bytes \<Rightarrow> bytes \<Rightarrow> error + Store" where
  "txn_Set s k v =
     (if unavailable s k then Inl ErrStore
      else Inr (s\<lparr>kv := AList.update k v (kv s), oplog := oplog s @ [OpSet k v]\<rparr>))"

definition txn_Delete :: "Store \<Rightarrow> bytes \<Rightarrow> error + Store" where
  "txn_Delete s k =
     (if unavailable s k then Inl ErrStore
      else Inr (s\<lparr>kv := AList.delete k (kv s), oplog := oplog s @ [OpDelete k]\<rparr>))"

text \<open>
  \<^verbatim>\<open>Iter(start, nil)\<close>: an iterator over the entries with key at or after \<open>start\<close>, in
  key order. The iterator is the list of entries from its position on: \<^verbatim>\<open>Valid\<close> is
  non-emptiness, \<^verbatim>\<open>Key\<close> the key of the head, and \<^verbatim>\<open>Next\<close> drops the head, failing when
  the store cannot read the entry it moves to.
\<close>

definition txn_Iter :: "Store \<Rightarrow> bytes \<Rightarrow> error + ((bytes \<times> bytes) list \<times> Store)" where
  "txn_Iter s start =
     (if unavailable s start then Inl ErrStore
      else Inr (filter (\<lambda>e. start \<le> fst e) (sort_key fst (kv s)),
                s\<lparr>oplog := oplog s @ [OpSeek start]\<rparr>))"

definition iter_Next :: "Store \<Rightarrow> (bytes \<times> bytes) list \<Rightarrow> error + (bytes \<times> bytes) list" where
  "iter_Next s it =
     (case tl it of [] \<Rightarrow> Inr []
      | e # r \<Rightarrow> if unavailable s (fst e) then Inl ErrStore else Inr (e # r))"

text \<open>
  Modelled from the spec: \<^verbatim>\<open>gc\<close> (gc.go, not among the sources) garbage-collects a data
  prefix. The spec says no more than that the entries under the prefix go away, so the
  model removes at once every entry whose key starts with the prefix.
\<close>

definition gc :: "Store \<Rightarrow> bytes \<Rightarrow> error + Store" where
  "gc s p =
     (if unavailable s p then Inl ErrStore
      else Inr (s\<lparr>kv := filter (\<lambda>e. \<not> prefix p (fst e)) (kv s), oplog := oplog s @ [OpGC p]\<rparr>))"

record DB =
  Namespace :: string
  ID :: DBID

record Transaction =
  t :: Store
  db :: DB

section \<open>Objects and their encoding\<close>

text \<open>
  Modelled from the spec: the object header with its encoder and decoder, and the constants
  of the object types and encodings (object.go, not among the sources). The spec lays a
  header out as
  \<^verbatim>\<open>[type(1)][encoding(1)][created_at(8)][updated_at(8)][expire_at(8)][id(16)]\<close>, times
  stored 8-byte big-endian, and has a truncated header rejected with \<^verbatim>\<open>invalid_length\<close>.
  Types and encodings are Go bytes. The types are numbered in the order in which the
  spec lists them (String, List, Hash, Set, ZSet), so \<^verbatim>\<open>ObjectString\<close> is 0, the value
  of a type field that was never assigned; the raw encoding of a string is taken to be
  the first encoding, 0, likewise, and the hash-table encoding of a sorted set to be 2,
  as Redis numbers it. Of the types and encodings only those the code here names are
  declared.
\<close>

type_synonym ObjectType = nat
type_synonym ObjectEncoding = nat

definition ObjectString :: ObjectType where "ObjectString = 0"
definition ObjectZSet :: ObjectType where "ObjectZSet = 4"

definition ObjectEncodingRaw :: ObjectEncoding where "ObjectEncodingRaw = 0"
definition ObjectEncodingHT :: ObjectEncoding where "ObjectEncodingHT = 2"

record Object =
  ID :: bytes
  Type :: ObjectType
  Encoding :: ObjectEncoding
  CreatedAt :: int
  UpdatedAt :: int
  ExpireAt :: int

definition ObjectEncodingLength :: nat where
  "ObjectEncodingLength = 42"

definition EncodeObject :: "'a Object_scheme \<Rightarrow> bytes" where
  "EncodeObject obj =
     be_bytes 1 (Type obj) @ be_bytes 1 (Encoding obj) @ PutUint64 (CreatedAt obj)
     @ PutUint64 (UpdatedAt obj) @ PutUint64 (ExpireAt obj)
     @ take 16 (ID obj @ replicate 16 (CHR 0x00))"

definition DecodeObject :: "bytes \<Rightarrow> error + Object" where
  "DecodeObject b =
     (if length b < ObjectEncodingLength then Inl ErrInvalidLength
      else Inr \<lparr>ID = take 16 (drop 26 b),
                Type = be_nat (take 1 b),
                Encoding = be_nat (take 1 (drop 1 b)),
                CreatedAt = Uint64_int64 (take 8 (drop 2 b)),
                UpdatedAt = Uint64_int64 (take 8 (drop 10 b)),
                ExpireAt = Uint64_int64 (take 8 (drop 18 b))\<rparr>)"

text \<open>The assignment \<^verbatim>\<open>m.Object = *obj\<close> to the header embedded in a larger meta.\<close>

definition set_Object :: "Object \<Rightarrow> 'a Object_scheme \<Rightarrow> 'a Object_scheme" where
  "set_Object obj m =
     m\<lparr>ID := ID obj, Type := Type obj, Encoding := Encoding obj,
       CreatedAt := CreatedAt obj, UpdatedAt := UpdatedAt obj, ExpireAt := ExpireAt obj\<rparr>"

text \<open>
  Modelled from the spec: \<^verbatim>\<open>MetaKey\<close> and \<^verbatim>\<open>DataKey\<close> (db.go, not among the sources) build
  the meta key \<^verbatim>\<open>NS:D:M:K\<close> and the data key prefix \<^verbatim>\<open>NS:D:D:ID\<close>, as \<^verbatim>\<open>toTikvDataKey\<close>
  in expire.go does for the data key.
\<close>

definition MetaKey :: "DB \<Rightarrow> bytes \<Rightarrow> bytes" where
  "MetaKey d k = Namespace d @ '':'' @ DBID_Bytes (DB.ID d) @ '':M:'' @ k"

definition DataKey :: "DB \<Rightarrow> bytes \<Rightarrow> bytes" where
  "DataKey d k = Namespace d @ '':'' @ DBID_Bytes (DB.ID d) @ '':D:'' @ k"

definition toTikvDataKey :: "bytes \<Rightarrow> DBID \<Rightarrow> bytes \<Rightarrow> bytes" where
  "toTikvDataKey namespace i k = namespace @ '':'' @ DBID_Bytes i @ '':D:'' @ k"

definition toTikvScorePrefix :: "bytes \<Rightarrow> DBID \<Rightarrow> bytes \<Rightarrow> bytes" where
  "toTikvScorePrefix namespace i k = namespace @ '':'' @ DBID_Bytes i @ '':S:'' @ k"

text \<open>
  Modelled from the spec: \<^verbatim>\<open>getObject\<close> (db.go, not among the sources) loads the meta
  entry of a meta key and decodes its header; a missing entry is \<open>ErrKeyNotFound\<close>.
\<close>

definition getObject :: "Transaction \<Rightarrow> bytes \<Rightarrow> error + Object" where
  "getObject txn mkey =
     (case txn_Get (t txn) mkey of
        Inl e \<Rightarrow> if e = ErrNotFound then Inl ErrKeyNotFound else Inl e
      | Inr b \<Rightarrow> DecodeObject b)"

section \<open>The expire index (expire.go)\<close>

text \<open>
  \<^verbatim>\<open>crc32.ChecksumIEEE\<close> of Go's standard library, bit by bit: the reflected polynomial
  \<^verbatim>\<open>0xEDB88320\<close>, all ones at the start and inverted at the end.
\<close>

definition crc32_bit :: "32 word \<Rightarrow> 32 word" where
  "crc32_bit c = (if bit c 0 then drop_bit 1 c XOR 0xEDB88320 else drop_bit 1 c)"

definition crc32_byte :: "32 word \<Rightarrow> char \<Rightarrow> 32 word" where
  "crc32_byte c b = (crc32_bit ^^ 8) (c XOR of_char b)"

definition ChecksumIEEE :: "bytes \<Rightarrow> 32 word" where
  "ChecksumIEEE bs = NOT (foldl crc32_byte 0xFFFFFFFF bs)"

text \<open>\<^verbatim>\<open>fmt.Sprintf("%04d", n)\<close>: decimal, zero-padded to four digits.\<close>

fun decimal :: "nat \<Rightarrow> string" where
  "decimal n = (if n < 10 then [char_of (48 + n)] else decimal (n div 10) @ [char_of (48 + n mod 10)])"

definition Sprintf_04d :: "nat \<Rightarrow> string" where
  "Sprintf_04d n = replicate (4 - length (decimal n)) (CHR ''0'') @ decimal n"

text \<open>
  Modelled from the spec: \<^verbatim>\<open>EncodeInt64\<close> (codec.go, not among the sources); the spec has
  every timestamp stored 8-byte big-endian.
\<close>

definition EncodeInt64 :: "int \<Rightarrow> bytes" where
  "EncodeInt64 v = PutUint64 v"

definition expireKeyPrefix :: bytes where
  "expireKeyPrefix = ''$sys:0:at:''"

definition hashExpireKeyPrefix :: bytes where
  "hashExpireKeyPrefix = take (length expireKeyPrefix - 1) expireKeyPrefix"

definition EXPIRE_HASH_NUM :: nat where
  "EXPIRE_HASH_NUM = 256"

definition IsExpired :: "'a Object_scheme \<Rightarrow> int \<Rightarrow> bool" where
  "IsExpired obj now = (if ExpireAt obj = 0 \<or> ExpireAt obj > now then False else True)"

definition expireKey :: "bytes \<Rightarrow> int \<Rightarrow> bytes" where
  "expireKey k ts =
     (let hashnum = unat (ChecksumIEEE k);
          hashPrefix = Sprintf_04d (hashnum mod EXPIRE_HASH_NUM)
      in hashExpireKeyPrefix @ hashPrefix @ '':'' @ EncodeInt64 ts @ '':'' @ k)"

text \<open>
  \<^verbatim>\<open>expireAt\<close> and \<^verbatim>\<open>unExpireAt\<close>; the metrics counters they bump are left out.
\<close>

definition expireAt ::
  "Store \<Rightarrow> bytes \<Rightarrow> bytes \<Rightarrow> ObjectType \<Rightarrow> int \<Rightarrow> int \<Rightarrow> error + Store" where
  "expireAt s mkey objID objType oldAt newAt =
     (let oldKey = expireKey mkey oldAt;
          newKey = expireKey mkey newAt
      in case (if oldAt > 0 then txn_Delete s oldKey else Inr s) of
           Inl e \<Rightarrow> Inl e
         | Inr s1 \<Rightarrow> (if newAt > 0 then txn_Set s1 newKey objID else Inr s1))"

definition unExpireAt :: "Store \<Rightarrow> bytes \<Rightarrow> int \<Rightarrow> error + Store" where
  "unExpireAt s mkey expAt =
     (if expAt = 0 then Inr s else txn_Delete s (expireKey mkey expAt))"

text \<open>
  \<^verbatim>\<open>gcDataKey\<close> and \<^verbatim>\<open>doExpire\<close>, the reaper's treatment of one expire-index entry:
  \<open>mkey\<close> is the meta key cut from the entry's key, \<open>i\<close> the entry's value and \<open>expAt\<close> the
  timestamp of the entry. The user key that \<^verbatim>\<open>splitMetaKey\<close> returns is used by the
  code for logging only.
\<close>

definition gcDataKey :: "Transaction \<Rightarrow> bytes \<Rightarrow> DBID \<Rightarrow> bytes \<Rightarrow> bytes \<Rightarrow> error + Transaction" where
  "gcDataKey tx namespace dbid k i =
     (let dkey = toTikvDataKey namespace dbid i
      in case gc (t tx) dkey of Inl e \<Rightarrow> Inl e | Inr s \<Rightarrow> Inr (tx\<lparr>t := s\<rparr>))"

definition doExpire :: "Transaction \<Rightarrow> bytes \<Rightarrow> bytes \<Rightarrow> int \<Rightarrow> error + Transaction" where
  "doExpire tx mkey i expAt =
     (case splitMetaKey mkey of Inl e \<Rightarrow> Inl e | Inr (namespace, dbid, k) \<Rightarrow>
      (case getObject tx mkey of
         Inl e \<Rightarrow> if e = ErrKeyNotFound then gcDataKey tx namespace dbid k i else Inl e
       | Inr obj \<Rightarrow>
          (let idLen = length (ID obj);
               i = (if length i > idLen then take idLen i else i)
           in if ID obj \<noteq> i then gcDataKey tx namespace dbid k i
              else if ExpireAt obj \<noteq> expAt then Inr tx
              else (case txn_Delete (t tx) mkey of Inl e \<Rightarrow> Inl e | Inr s \<Rightarrow>
                     if Type obj = ObjectString then Inr (tx\<lparr>t := s\<rparr>)
                     else gcDataKey (tx\<lparr>t := s\<rparr>) namespace dbid k i))))"

section \<open>Strings (string.go)\<close>

text \<open>
  A \<^verbatim>\<open>nil\<close> value is \<open>None\<close>. The clock is an argument: \<open>now\<close> and \<open>timestamp\<close> are the
  readings of \<^verbatim>\<open>Now()\<close> the function takes.
\<close>

record StringMeta = Object +
  Value :: "bytes option"

record String_obj =
  Meta :: StringMeta
  key :: bytes
  txn :: Transaction

definition zero_StringMeta :: StringMeta where
  "zero_StringMeta = \<lparr>ID = [], Type = 0, Encoding = 0, CreatedAt = 0, UpdatedAt = 0,
     ExpireAt = 0, Value = None\<rparr>"

definition bytes_of :: "bytes option \<Rightarrow> bytes" where
  "bytes_of v = (case v of None \<Rightarrow> [] | Some b \<Rightarrow> b)"

definition encode :: "String_obj \<Rightarrow> bytes" where
  "encode s = EncodeObject (Meta s) @ bytes_of (Value (Meta s))"

definition decode :: "String_obj \<Rightarrow> bytes \<Rightarrow> int \<Rightarrow> error + String_obj" where
  "decode s b timestamp =
     (case DecodeObject b of Inl e \<Rightarrow> Inl e | Inr obj \<Rightarrow>
        if ExpireAt obj \<noteq> 0 \<and> ExpireAt obj < timestamp then Inr s
        else Inr (s\<lparr>Meta := (set_Object obj (Meta s))
                   \<lparr>Value := (if length b > ObjectEncodingLength
                              then Some (drop ObjectEncodingLength b) else Value (Meta s))\<rparr>\<rparr>))"

definition GetString :: "Transaction \<Rightarrow> bytes \<Rightarrow> int \<Rightarrow> int \<Rightarrow> error + String_obj" where
  "GetString tx k now timestamp =
     (let str = \<lparr>Meta = zero_StringMeta, key = k, txn = tx\<rparr>;
          mkey = MetaKey (db tx) k
      in case txn_Get (t tx) mkey of
           Inl e \<Rightarrow> if e = ErrNotFound then Inr str else Inl e
         | Inr b \<Rightarrow>
            (case decode str b timestamp of Inl e \<Rightarrow> Inl e | Inr str1 \<Rightarrow>
               if Type (Meta str1) \<noteq> ObjectString then Inl ErrTypeMismatch
               else if Encoding (Meta str1) \<noteq> ObjectEncodingRaw then Inl ErrTypeMismatch
               else Inr (str1\<lparr>Meta := (Meta str1)\<lparr>UpdatedAt := now\<rparr>\<rparr>)))"

definition Exist :: "String_obj \<Rightarrow> bool" where
  "Exist s = (if Value (Meta s) = None then False else True)"

definition Get :: "String_obj \<Rightarrow> error + bytes option" where
  "Get s = (if \<not> Exist s then Inl ErrKeyNotFound else Inr (Value (Meta s)))"

text \<open>
  \<^verbatim>\<open>Set(val, expire...)\<close>: \<open>expire\<close> is the list of the variadic arguments. The call of
  \<^verbatim>\<open>expireAt\<close> in string.go passes no object type; the parameter is unused in
  \<^verbatim>\<open>expireAt\<close>, and the model passes the type of the string's meta.
\<close>

definition Set :: "String_obj \<Rightarrow> bytes \<Rightarrow> int list \<Rightarrow> int \<Rightarrow> error + String_obj" where
  "Set s val expire timestamp =
     (let mkey = MetaKey (db (txn s)) (key s) in
      case (if length expire \<noteq> 0 \<and> hd expire > 0
            then (let old = ExpireAt (Meta s);
                      s1 = s\<lparr>Meta := (Meta s)\<lparr>ExpireAt := int64 (timestamp + hd expire)\<rparr>\<rparr>
                  in case expireAt (t (txn s1)) mkey (ID (Meta s1)) (Type (Meta s1)) old
                            (ExpireAt (Meta s1)) of
                       Inl e \<Rightarrow> Inl e
                     | Inr st \<Rightarrow> Inr (s1\<lparr>txn := (txn s1)\<lparr>t := st\<rparr>\<rparr>))
            else (let st = (case unExpireAt (t (txn s)) mkey (ExpireAt (Meta s)) of
                              Inl e \<Rightarrow> t (txn s) | Inr st \<Rightarrow> st)
                  in Inr (s\<lparr>Meta := (Meta s)\<lparr>ExpireAt := 0\<rparr>, txn := (txn s)\<lparr>t := st\<rparr>\<rparr>)))
      of Inl e \<Rightarrow> Inl e
       | Inr s2 \<Rightarrow>
          (let s3 = s2\<lparr>Meta := (Meta s2)\<lparr>Value := Some val\<rparr>\<rparr>
           in case txn_Set (t (txn s3)) mkey (encode s3) of
                Inl e \<Rightarrow> Inl e
              | Inr st \<Rightarrow> Inr (s3\<lparr>txn := (txn s3)\<lparr>t := st\<rparr>\<rparr>)))"

text \<open>\<^verbatim>\<open>Append\<close>; appending nothing to a \<^verbatim>\<open>nil\<close> value leaves it \<^verbatim>\<open>nil\<close>.\<close>

definition Append :: "String_obj \<Rightarrow> bytes \<Rightarrow> error + (int \<times> String_obj)" where
  "Append s val =
     (let v = (if Value (Meta s) = None \<and> val = [] then None
               else Some (bytes_of (Value (Meta s)) @ val));
          s1 = s\<lparr>Meta := (Meta s)\<lparr>Value := v, ExpireAt := 0\<rparr>\<rparr>
      in case txn_Set (t (txn s1)) (MetaKey (db (txn s1)) (key s1)) (encode s1) of
           Inl e \<Rightarrow> Inl e
         | Inr st \<Rightarrow> Inr (int (length (bytes_of (Value (Meta s1)))), s1\<lparr>txn := (txn s1)\<lparr>t := st\<rparr>\<rparr>))"

text \<open>
  \<^verbatim>\<open>GetRange\<close>. The result is a byte string; \<^verbatim>\<open>nil\<close> and the empty slice are both \<open>[]\<close>.
\<close>

definition GetRange :: "String_obj \<Rightarrow> int \<Rightarrow> int \<Rightarrow> error + bytes" where
  "GetRange s start end =
     (let v = bytes_of (Value (Meta s));
          vlen = int (length v);
          end = (if end < 0 then vlen + end else end);
          start = (if start < 0 then vlen + start else start)
      in if start > end \<or> start > vlen \<or> end < 0 then Inr []
         else (let end = (if end > vlen then vlen else end);
                   start = (if start < 0 then 0 else start)
               in case slice_from v start of Inl e \<Rightarrow> Inl e
                  | Inr v1 \<Rightarrow> slice_to v1 (end + 1)))"

section \<open>Sorted sets (zset.go)\<close>

text \<open>
  A score is a Go \<^verbatim>\<open>float64\<close>, kept as its 64-bit pattern: the code stores scores,
  reads them back and compares them with \<^verbatim>\<open>==\<close>, and never computes with them.
  \<open>float64_eq\<close> is that comparison: a NaN equals nothing, the two zeros are equal, any
  other two scores are equal when their bits are.
\<close>

type_synonym float64 = "64 word"

definition isNaN :: "float64 \<Rightarrow> bool" where
  "isNaN f = (f AND 0x7FF0000000000000 = 0x7FF0000000000000 \<and> f AND 0x000FFFFFFFFFFFFF \<noteq> 0)"

definition float64_eq :: "float64 \<Rightarrow> float64 \<Rightarrow> bool" where
  "float64_eq a b =
     (\<not> isNaN a \<and> \<not> isNaN b
      \<and> (a = b \<or> (a AND 0x7FFFFFFFFFFFFFFF = 0 \<and> b AND 0x7FFFFFFFFFFFFFFF = 0)))"

text \<open>
  Modelled from the spec: \<^verbatim>\<open>EncodeFloat64\<close> and \<^verbatim>\<open>DecodeFloat64\<close> (codec.go, not among
  the sources). The bit pattern of the score is transformed so that byte order is numeric
  order: a clear sign bit is set, and a pattern with the sign bit set has all 64 bits
  flipped; the result is stored big-endian, and decoding inverts.
\<close>

definition EncodeFloat64 :: "float64 \<Rightarrow> bytes" where
  "EncodeFloat64 f =
     (let u = (if bit f 63 then NOT f else f XOR push_bit 63 1)
      in be_bytes 8 (unat u))"

definition DecodeFloat64 :: "bytes \<Rightarrow> float64" where
  "DecodeFloat64 b =
     (let u = (word_of_nat (be_nat (take 8 b)) :: 64 word)
      in if bit u 63 then u XOR push_bit 63 1 else NOT u)"

text \<open>
  Modelled from the spec: \<^verbatim>\<open>NilValue\<close> (not among the sources), the value stored under a
  score-index key, which the spec gives as empty.
\<close>

definition NilValue :: bytes where
  "NilValue = []"

record ZSetMeta = Object +
  Len :: int

record ZSet =
  meta :: ZSetMeta
  key :: bytes
  txn :: Transaction

definition zero_ZSetMeta :: ZSetMeta where
  "zero_ZSetMeta = \<lparr>ID = [], Type = 0, Encoding = 0, CreatedAt = 0, UpdatedAt = 0,
     ExpireAt = 0, Len = 0\<rparr>"

definition zsetMemberKey :: "bytes \<Rightarrow> bytes \<Rightarrow> bytes" where
  "zsetMemberKey dkey member = dkey @ '':'' @ member"

definition ZSetScorePrefix :: "DB \<Rightarrow> bytes \<Rightarrow> bytes" where
  "ZSetScorePrefix d k = Namespace d @ '':'' @ DBID_Bytes (DB.ID d) @ '':S:'' @ k"

definition zsetScoreKey :: "bytes \<Rightarrow> bytes \<Rightarrow> bytes \<Rightarrow> bytes" where
  "zsetScoreKey scorePrefix score member = scorePrefix @ '':'' @ score @ '':'' @ member"

definition encodeMeta :: "ZSetMeta \<Rightarrow> bytes" where
  "encodeMeta m = EncodeObject m @ PutUint64 (Len m)"

definition decodeMeta :: "ZSet \<Rightarrow> bytes \<Rightarrow> error + ZSet" where
  "decodeMeta z b =
     (case DecodeObject b of Inl e \<Rightarrow> Inl e | Inr obj \<Rightarrow>
        if Type obj \<noteq> ObjectZSet then Inl ErrTypeMismatch
        else (let m = drop ObjectEncodingLength b
              in if length m \<noteq> 8 then Inl ErrInvalidLength
                 else Inr (z\<lparr>meta := (set_Object obj (meta z))\<lparr>Len := Uint64_int64 (take 8 m)\<rparr>\<rparr>)))"

text \<open>
  \<^verbatim>\<open>GetZSet\<close>; \<open>now\<close> and \<open>uuid\<close> are what \<^verbatim>\<open>Now()\<close> and \<^verbatim>\<open>UUID()\<close> return when the
  key has no meta.
\<close>

definition GetZSet :: "Transaction \<Rightarrow> bytes \<Rightarrow> int \<Rightarrow> bytes \<Rightarrow> error + ZSet" where
  "GetZSet tx k now uuid =
     (let zset = \<lparr>meta = zero_ZSetMeta, key = k, txn = tx\<rparr>;
          mkey = MetaKey (db tx) k
      in case txn_Get (t tx) mkey of
           Inl e \<Rightarrow>
             if e = ErrNotFound
             then Inr (zset\<lparr>meta := \<lparr>ID = uuid, Type = ObjectZSet, Encoding = ObjectEncodingHT,
                                      CreatedAt = now, UpdatedAt = now, ExpireAt = 0, Len = 0\<rparr>\<rparr>)
             else Inl e
         | Inr b \<Rightarrow> decodeMeta zset b)"

text \<open>
  Modelled from the spec: \<^verbatim>\<open>BatchGetValues\<close> (not among the sources), the single
  multi-get behind \<^verbatim>\<open>MGet\<close>: the value of each key, \<^verbatim>\<open>nil\<close> for a key with no entry.
\<close>

fun BatchGetValues :: "Transaction \<Rightarrow> bytes list \<Rightarrow> error + bytes option list" where
  "BatchGetValues tx [] = Inr []"
| "BatchGetValues tx (k # ks) =
     (case (case txn_Get (t tx) k of
              Inl e \<Rightarrow> if e = ErrNotFound then Inr None else Inl e
            | Inr v \<Rightarrow> Inr (Some v)) of
        Inl e \<Rightarrow> Inl e
      | Inr v \<Rightarrow> (case BatchGetValues tx ks of Inl e \<Rightarrow> Inl e | Inr vs \<Rightarrow> Inr (v # vs)))"

definition MGet :: "ZSet \<Rightarrow> bytes list \<Rightarrow> error + bytes option list" where
  "MGet z members =
     (let dkey = DataKey (db (txn z)) (ID (meta z));
          ikeys = map (zsetMemberKey dkey) members
      in BatchGetValues (txn z) ikeys)"

definition updateMeta :: "ZSet \<Rightarrow> error + ZSet" where
  "updateMeta z =
     (case txn_Set (t (txn z)) (MetaKey (db (txn z)) (key z)) (encodeMeta (meta z)) of
        Inl e \<Rightarrow> Inl e
      | Inr s \<Rightarrow> Inr (z\<lparr>txn := (txn z)\<lparr>t := s\<rparr>\<rparr>))"

text \<open>
  \<^verbatim>\<open>ZAdd\<close>. \<open>ZAdd_member\<close> is the body of the loop for one member, with \<open>old\<close> the
  entry of \<^verbatim>\<open>oldValues\<close> for it; it returns what the iteration adds to \<^verbatim>\<open>added\<close>.
  \<open>ZAdd_loop\<close> is the loop; an index past the end of \<^verbatim>\<open>scores\<close> panics.
\<close>

definition ZAdd_member ::
  "Store \<Rightarrow> bytes \<Rightarrow> bytes \<Rightarrow> bytes \<Rightarrow> float64 \<Rightarrow> bytes option \<Rightarrow> error + (int \<times> Store)" where
  "ZAdd_member s dkey scorePrefix member score old =
     (if old \<noteq> None \<and> float64_eq score (DecodeFloat64 (the old)) then Inr (0, s)
      else
       (case (case old of None \<Rightarrow> Inr s
              | Some ov \<Rightarrow> txn_Delete s (zsetScoreKey scorePrefix ov member)) of
          Inl e \<Rightarrow> Inl e
        | Inr s1 \<Rightarrow>
           (let memberKey = zsetMemberKey dkey member;
                bytesScore = EncodeFloat64 score
            in case txn_Set s1 memberKey bytesScore of Inl e \<Rightarrow> Inl e | Inr s2 \<Rightarrow>
               (case txn_Set s2 (zsetScoreKey scorePrefix bytesScore member) NilValue of
                  Inl e \<Rightarrow> Inl e
                | Inr s3 \<Rightarrow> Inr (if old = None then 1 else 0, s3)))))"

fun ZAdd_loop ::
  "Store \<Rightarrow> bytes \<Rightarrow> bytes \<Rightarrow> bytes list \<Rightarrow> float64 list \<Rightarrow> bytes option list \<Rightarrow> int
     \<Rightarrow> error + (int \<times> Store)" where
  "ZAdd_loop s dkey scorePrefix [] scores oldValues added = Inr (added, s)"
| "ZAdd_loop s dkey scorePrefix (m # ms) [] oldValues added = Inl Panic"
| "ZAdd_loop s dkey scorePrefix (m # ms) (sc # scs) [] added = Inl Panic"
| "ZAdd_loop s dkey scorePrefix (m # ms) (sc # scs) (old # olds) added =
     (case ZAdd_member s dkey scorePrefix m sc old of
        Inl e \<Rightarrow> Inl e
      | Inr (n, s1) \<Rightarrow> ZAdd_loop s1 dkey scorePrefix ms scs olds (added + n))"

definition ZAdd :: "ZSet \<Rightarrow> bytes list \<Rightarrow> float64 list \<Rightarrow> error + (int \<times> ZSet)" where
  "ZAdd z members scores =
     (case (if Len (meta z) > 0 then MGet z members
            else Inr (replicate (length members) None)) of
        Inl e \<Rightarrow> Inl e
      | Inr oldValues \<Rightarrow>
         (let dkey = DataKey (db (txn z)) (ID (meta z));
              scorePrefix = ZSetScorePrefix (db (txn z)) (ID (meta z))
          in case ZAdd_loop (t (txn z)) dkey scorePrefix members scores oldValues 0 of
               Inl e \<Rightarrow> Inl e
             | Inr (added, s) \<Rightarrow>
                (case updateMeta (z\<lparr>meta := (meta z)\<lparr>Len := int64 (Len (meta z) + added)\<rparr>,
                                    txn := (txn z)\<lparr>t := s\<rparr>\<rparr>) of
                   Inl e \<Rightarrow> Inl e
                 | Inr z1 \<Rightarrow> Inr (added, z1))))"

definition ZSet_Exist :: "ZSet \<Rightarrow> bool" where
  "ZSet_Exist z = (if Len (meta z) = 0 then False else True)"

text \<open>\<^verbatim>\<open>ZRem\<close>, its loop over the members and the scores that \<^verbatim>\<open>MGet\<close> read.\<close>

fun ZRem_loop ::
  "Store \<Rightarrow> bytes \<Rightarrow> bytes \<Rightarrow> bytes list \<Rightarrow> bytes option list \<Rightarrow> int \<Rightarrow> error + (int \<times> Store)" where
  "ZRem_loop s dkey scorePrefix [] scores deleted = Inr (deleted, s)"
| "ZRem_loop s dkey scorePrefix (m # ms) [] deleted = Inl Panic"
| "ZRem_loop s dkey scorePrefix (m # ms) (None # scs) deleted =
     ZRem_loop s dkey scorePrefix ms scs deleted"
| "ZRem_loop s dkey scorePrefix (m # ms) (Some sc # scs) deleted =
     (case txn_Delete s (zsetScoreKey scorePrefix sc m) of Inl e \<Rightarrow> Inl e | Inr s1 \<Rightarrow>
      (case txn_Delete s1 (zsetMemberKey dkey m) of Inl e \<Rightarrow> Inl e | Inr s2 \<Rightarrow>
         ZRem_loop s2 dkey scorePrefix ms scs (deleted + 1)))"

definition ZRem :: "ZSet \<Rightarrow> bytes list \<Rightarrow> error + (int \<times> ZSet)" where
  "ZRem z members =
     (case MGet z members of Inl e \<Rightarrow> Inl e | Inr scores \<Rightarrow>
       (let dkey = DataKey (db (txn z)) (ID (meta z));
            scorePrefix = ZSetScorePrefix (db (txn z)) (ID (meta z))
        in case ZRem_loop (t (txn z)) dkey scorePrefix members scores 0 of
             Inl e \<Rightarrow> Inl e
           | Inr (deleted, s) \<Rightarrow>
              (let z1 = z\<lparr>meta := (meta z)\<lparr>Len := int64 (Len (meta z) - deleted)\<rparr>,
                         txn := (txn z)\<lparr>t := s\<rparr>\<rparr>
               in if Len (meta z1) = 0
                  then (let mkey = MetaKey (db (txn z1)) (key z1)
                        in case txn_Delete (t (txn z1)) mkey of Inl e \<Rightarrow> Inl e | Inr s1 \<Rightarrow>
                            if ExpireAt (meta z1) > 0
                            then (case unExpireAt s1 mkey (ExpireAt (meta z1)) of
                                    Inl e \<Rightarrow> Inl e
                                  | Inr s2 \<Rightarrow> Inr (deleted, z1\<lparr>txn := (txn z1)\<lparr>t := s2\<rparr>\<rparr>))
                            else Inr (deleted, z1\<lparr>txn := (txn z1)\<lparr>t := s1\<rparr>\<rparr>))
                  else (case updateMeta z1 of Inl e \<Rightarrow> Inl e
                        | Inr z2 \<Rightarrow> Inr (deleted, z2)))))"

definition ZCard :: "ZSet \<Rightarrow> int" where
  "ZCard z = Len (meta z)"

text \<open>
  \<^verbatim>\<open>ZScore\<close>; \<open>fmt\<close> stands for \<^verbatim>\<open>strconv.FormatFloat(_, 'f', -1, 64)\<close> of Go's standard
  library.
\<close>

definition ZScore :: "(float64 \<Rightarrow> bytes) \<Rightarrow> ZSet \<Rightarrow> bytes \<Rightarrow> error + bytes option" where
  "ZScore fmt z member =
     (let dkey = DataKey (db (txn z)) (ID (meta z));
          memberKey = zsetMemberKey dkey member
      in case txn_Get (t (txn z)) memberKey of
           Inl e \<Rightarrow> if e = ErrNotFound then Inr None else Inl e
         | Inr bytesScore \<Rightarrow> Inr (Some (fmt (DecodeFloat64 bytesScore))))"

text \<open>
  \<^verbatim>\<open>ZAnyOrderRange\<close>. \<open>ZRange_collect\<close> is what one iteration appends to \<^verbatim>\<open>items\<close> for
  the key under the iterator. \<open>ZRange_loop\<close> is the scan loop, which has no post
  statement: \<^verbatim>\<open>i++\<close> and \<^verbatim>\<open>iter.Next()\<close> stand at the end of its body. The loop may
  not return, so its result is an option and \<open>None\<close> is a run that never ends.
\<close>

definition ZRange_collect ::
  "(float64 \<Rightarrow> bytes) \<Rightarrow> bytes \<Rightarrow> bool \<Rightarrow> bool \<Rightarrow> bytes \<Rightarrow> bytes list \<Rightarrow> bytes list" where
  "ZRange_collect fmt scorePrefix withScore positiveOrder k items =
     (let scoreAndMember = drop (length scorePrefix + length '':'') k;
          score = take 8 scoreAndMember;
          member = drop (8 + length '':'') scoreAndMember
      in if withScore
         then (let val = fmt (DecodeFloat64 score)
               in if \<not> positiveOrder then items @ [val, member] else items @ [member, val])
         else items @ [member])"

partial_function (option) ZRange_loop ::
  "(float64 \<Rightarrow> bytes) \<Rightarrow> Store \<Rightarrow> bytes \<Rightarrow> bool \<Rightarrow> bool \<Rightarrow> int \<Rightarrow> int \<Rightarrow> int
     \<Rightarrow> (bytes \<times> bytes) list \<Rightarrow> bytes list \<Rightarrow> bytes list option" where
  "ZRange_loop fmt s scorePrefix withScore positiveOrder start stop i it items =
     (if i \<le> stop \<and> it \<noteq> [] \<and> HasPrefix (fst (hd it)) scorePrefix
      then (if i \<ge> start
               \<and> length (fst (hd it)) < length scorePrefix + length '':'' + 8 + length '':''
            then ZRange_loop fmt s scorePrefix withScore positiveOrder start stop i it items
            else (let items1 = (if i \<ge> start
                                then ZRange_collect fmt scorePrefix withScore positiveOrder
                                       (fst (hd it)) items
                                else items)
                  in case iter_Next s it of
                       Inl e \<Rightarrow> Some items1
                     | Inr it1 \<Rightarrow> ZRange_loop fmt s scorePrefix withScore positiveOrder start stop
                                   (int64 (i + 1)) it1 items1))
      else Some items)"

definition ZAnyOrderRange ::
  "(float64 \<Rightarrow> bytes) \<Rightarrow> ZSet \<Rightarrow> int \<Rightarrow> int \<Rightarrow> bool \<Rightarrow> bool
     \<Rightarrow> (error + (bytes list \<times> ZSet)) option" where
  "ZAnyOrderRange fmt z start stop withScore positiveOrder =
     (let len = Len (meta z) in
      if stop < 0 \<and> int64 (len + stop) < 0 then Some (Inr ([], z))
      else
       (let stop = (if stop < 0 then int64 (len + stop)
                    else if stop \<ge> len then int64 (len - 1) else stop);
            start = (if start < 0
                     then (if int64 (len + start) < 0 then 0 else int64 (len + start))
                     else start)
        in if start > stop \<or> start \<ge> len then Some (Inr ([], z))
           else
            (let scorePrefix = ZSetScorePrefix (db (txn z)) (ID (meta z));
                 r = txn_Iter (t (txn z)) scorePrefix;
                 tmp = start;
                 start = (if positiveOrder then start else int64 (int64 (len - 1) - stop));
                 stop = (if positiveOrder then stop else int64 (int64 (len - 1) - tmp))
             in case r of
                  Inl e \<Rightarrow> Some (Inl e)
                | Inr (it, s) \<Rightarrow>
                   (case ZRange_loop fmt s scorePrefix withScore positiveOrder start stop 0 it [] of
                      None \<Rightarrow> None
                    | Some items \<Rightarrow>
                       Some (Inr (if \<not> positiveOrder then rev items else items,
                                  z\<lparr>txn := (txn z)\<lparr>t := s\<rparr>\<rparr>))))))"

text \<open>
  The meta of a sorted set is well-formed when it is what \<^verbatim>\<open>decodeMeta\<close> can read back:
  a 16-byte id, the type of a sorted set, an encoding that fits a byte, and times and a
  length that fit an \<^verbatim>\<open>int64\<close>.
\<close>

definition in_int64 :: "int \<Rightarrow> bool" where
  "in_int64 x = (- (2 ^ 63) \<le> x \<and> x < 2 ^ 63)"

definition wf_ZSetMeta :: "ZSetMeta \<Rightarrow> bool" where
  "wf_ZSetMeta mt =
     (length (ID mt) = 16 \<and> Type mt = ObjectZSet \<and> Encoding mt < 256
      \<and> in_int64 (CreatedAt mt) \<and> in_int64 (UpdatedAt mt) \<and> in_int64 (ExpireAt mt)
      \<and> in_int64 (Len mt))"


section \<open>The rate limiter's balance procedure (limitersMgr.go)\<close>















section \<open>Example states\<close>

text \<open>
  Concrete states on which the results below are exercised: database 1 of namespace
  \<^verbatim>\<open>ns\<close>, a store in which every key is available, and a string and a sorted set with a
  16-byte object id each.
\<close>

definition ex_db :: DB where
  "ex_db = \<lparr>Namespace = ''ns'', ID = 1\<rparr>"

definition ex_txn :: "(bytes \<times> bytes) list \<Rightarrow> Transaction" where
  "ex_txn es = \<lparr>t = \<lparr>kv = es, unavailable = (\<lambda>k. False), oplog = []\<rparr>, db = ex_db\<rparr>"

definition ex_id :: bytes where
  "ex_id = ''0123456789abcdef''"

definition ex_old_id :: bytes where
  "ex_old_id = ''fedcba9876543210''"

text \<open>The bit patterns of the scores 1.0 and 2.0.\<close>

definition ex_score :: float64 where
  "ex_score = 0x3FF0000000000000"

definition ex_score2 :: float64 where
  "ex_score2 = 0x4000000000000000"

definition ex_string :: "bytes \<Rightarrow> int \<Rightarrow> (bytes \<times> bytes) list \<Rightarrow> String_obj" where
  "ex_string v ea es =
     \<lparr>Meta = \<lparr>ID = ex_id, Type = ObjectString, Encoding = ObjectEncodingRaw, CreatedAt = 1,
              UpdatedAt = 1, ExpireAt = ea, Value = Some v\<rparr>,
      key = ''k'', txn = ex_txn es\<rparr>"

definition ex_zset :: "int \<Rightarrow> int \<Rightarrow> (bytes \<times> bytes) list \<Rightarrow> ZSet" where
  "ex_zset n ea es =
     \<lparr>meta = \<lparr>ID = ex_id, Type = ObjectZSet, Encoding = ObjectEncodingHT, CreatedAt = 1,
              UpdatedAt = 1, ExpireAt = ea, Len = n\<rparr>,
      key = ''z'', txn = ex_txn es\<rparr>"




section \<open>Results\<close>

subsection \<open>Codecs\<close>

lemma be_bytes_Suc: "be_bytes (Suc n) v = char_of (v div 256 ^ n) # be_bytes n v"
  by (simp add: be_bytes_def)

lemma length_be_bytes [simp]: "length (be_bytes n v) = n"
  by (simp add: be_bytes_def)

lemma foldl_be_bytes:
  "foldl (\<lambda>a c. a * 256 + of_char c) a (be_bytes n v) = a * 256 ^ n + v mod 256 ^ n"
proof (induction n arbitrary: a)
  case 0
  show ?case by (simp add: be_bytes_def)
next
  case (Suc n)
  have m: "v mod (256 ^ n * 256) = 256 ^ n * (v div 256 ^ n mod 256) + v mod 256 ^ n"
    by (rule mod_mult2_eq)
  have "foldl (\<lambda>a c. a * 256 + of_char c) a (be_bytes (Suc n) v)
      = foldl (\<lambda>a c. a * 256 + of_char c) (a * 256 + v div 256 ^ n mod 256) (be_bytes n v)"
    by (simp add: be_bytes_Suc)
  also have "\<dots> = (a * 256 + v div 256 ^ n mod 256) * 256 ^ n + v mod 256 ^ n"
    by (rule Suc.IH)
  also have "\<dots> = a * 256 ^ Suc n + v mod 256 ^ Suc n"
    using m by (simp add: algebra_simps)
  finally show ?case .
qed

lemma be_nat_be_bytes: "be_nat (be_bytes n v) = v mod 256 ^ n"
  by (simp add: be_nat_def foldl_be_bytes)

lemma length_PutUint64 [simp]: "length (PutUint64 x) = 8"
  by (simp add: PutUint64_def)

lemma Uint64_PutUint64:
  assumes "- (2 ^ 63) \<le> x" and "x < 2 ^ 63"
  shows "Uint64_int64 (PutUint64 x) = x"
proof -
  have "int (nat (x mod 2 ^ 64) mod 256 ^ 8) = x mod 2 ^ 64"
    by simp
  then have "Uint64_int64 (PutUint64 x) = signed_take_bit 63 (take_bit 64 x)"
    by (simp add: Uint64_int64_def PutUint64_def be_nat_be_bytes int64_def take_bit_eq_mod)
  also have "\<dots> = signed_take_bit 63 x"
    by (simp add: signed_take_bit_take_bit)
  also have "\<dots> = x"
    using assms by (simp add: signed_take_bit_int_eq_self)
  finally show ?thesis .
qed

lemma length_EncodeObject [simp]: "length (EncodeObject obj) = 42"
  by (simp add: EncodeObject_def)

lemma DecodeObject_EncodeObject:
  assumes "length (ID obj) = 16" "Type obj < 256" "Encoding obj < 256"
    "- (2 ^ 63) \<le> CreatedAt obj \<and> CreatedAt obj < 2 ^ 63"
    "- (2 ^ 63) \<le> UpdatedAt obj \<and> UpdatedAt obj < 2 ^ 63"
    "- (2 ^ 63) \<le> ExpireAt obj \<and> ExpireAt obj < 2 ^ 63"
  shows "DecodeObject (EncodeObject obj @ rest) = Inr (Object.truncate obj)"
  using assms
  by (simp add: DecodeObject_def EncodeObject_def ObjectEncodingLength_def Object.truncate_def
      be_nat_be_bytes Uint64_PutUint64)

subsection \<open>Keys\<close>


lemma index_from_append:
  "CHR '':'' \<notin> set ns \<Longrightarrow> index_from (ns @ CHR '':'' # r) (CHR '':'') i = i + int (length ns)"
  by (induction ns arbitrary: i) auto

lemma splitMetaKey_wellformed:
  assumes "CHR '':'' \<notin> set ns" and "length d = 3"
  shows "splitMetaKey (ns @ '':'' @ d @ '':M:'' @ k) = Inr (ns, toDBID d, '':'' @ k)"
proof -
  obtain a b c where d: "d = [a, b, c]"
    using assms(2) by (auto simp: length_Suc_conv numeral_3_eq_3)
  have n: "nat (int (length ns) + 1) = length ns + 1" "nat (int (length ns) + 6) = length ns + 6"
    "nat (int (length ns) + 4) = length ns + 4"
    by simp_all
  show ?thesis
    using assms(1)
    by (simp add: splitMetaKey_def bytes_Index_def index_from_append slice_to_def slice_from_def
      slice_def Let_def d n)
qed

subsection \<open>Store calls and key kinds\<close>

lemma key_kinds_distinct [simp]:
  "MetaKey d k \<noteq> zsetMemberKey (DataKey d i) m"
  "zsetMemberKey (DataKey d i) m \<noteq> MetaKey d k"
  "zsetScoreKey (ZSetScorePrefix d i) e m \<noteq> zsetMemberKey (DataKey d i') m'"
  "zsetMemberKey (DataKey d i') m' \<noteq> zsetScoreKey (ZSetScorePrefix d i) e m"
  "zsetScoreKey (ZSetScorePrefix d i) e m \<noteq> MetaKey d k"
  "MetaKey d k \<noteq> zsetScoreKey (ZSetScorePrefix d i) e m"
  by (simp_all add: MetaKey_def DataKey_def ZSetScorePrefix_def zsetMemberKey_def zsetScoreKey_def)

lemma txn_Delete_Inr:
  "txn_Delete s k = Inr s' \<Longrightarrow>
     \<not> unavailable s k \<and> s' = s\<lparr>kv := AList.delete k (kv s), oplog := oplog s @ [OpDelete k]\<rparr>"
  by (simp add: txn_Delete_def split: if_splits)

lemma txn_Set_Inr:
  "txn_Set s k v = Inr s' \<Longrightarrow>
     \<not> unavailable s k \<and> s' = s\<lparr>kv := AList.update k v (kv s), oplog := oplog s @ [OpSet k v]\<rparr>"
  by (simp add: txn_Set_def split: if_splits)

subsection \<open>The meta-key parser\<close>

text \<open>
  C7. The meta key \<^verbatim>\<open>ns:001:M:key\<close> has namespace \<^verbatim>\<open>ns\<close>, the 3-byte db id
  \<^verbatim>\<open>001\<close> and user key \<^verbatim>\<open>key\<close>; \<^verbatim>\<open>splitMetaKey\<close> returns the namespace and the db id,
  but its third component starts one byte early, at the colon that ends \<^verbatim>\<open>:M:\<close>.
\<close>

theorem splitMetaKey_keeps_separator:
  "splitMetaKey ''ns:001:M:key'' = Inr (''ns'', toDBID ''001'', '':key'')"
  by (simp add: splitMetaKey_def bytes_Index_def slice_to_def slice_from_def slice_def)

subsection \<open>GetRange\<close>

text \<open>
  C6. On the stored value \<^verbatim>\<open>abcdef\<close>, \<^verbatim>\<open>GetRange(2, 3)\<close> should be the bytes at
  positions 2 to 3 inclusive, \<^verbatim>\<open>cd\<close>. The code slices twice, \<^verbatim>\<open>Value[start:][:end+1]\<close>,
  so the end is counted from \<^verbatim>\<open>start\<close> and the result runs on to \<^verbatim>\<open>cdef\<close>.
\<close>

theorem GetRange_returns_to_the_end:
  "GetRange (ex_string ''abcdef'' 0 []) 2 3 = Inr ''cdef''"
  by (simp add: GetRange_def ex_string_def bytes_of_def slice_from_def slice_to_def slice_def)

text \<open>
  With the end clamped to the length instead of the last index, a range that covers the
  whole value reaches one byte past it.
\<close>

lemma GetRange_panics:
  "GetRange (ex_string ''abcdef'' 0 []) 0 6 = Inl Panic"
  by (simp add: GetRange_def ex_string_def bytes_of_def slice_from_def slice_to_def slice_def)

subsection \<open>Reading an expired string\<close>

text \<open>
  C9. When the meta stored for a string key decodes to a header with
  \<open>0 < expire_at < timestamp\<close>, the reading of the clock in \<^verbatim>\<open>decode\<close>, then
  \<^verbatim>\<open>GetString\<close> succeeds with an object whose value is unset: \<^verbatim>\<open>Exist\<close> is false and
  \<^verbatim>\<open>Get\<close> fails with \<open>ErrKeyNotFound\<close>. The transaction of the object is the one
  passed in, with the same entries and the same log of writes.
\<close>

theorem GetString_expired_is_absent:
  assumes "txn_Get (t tx) (MetaKey (db tx) k) = Inr b"
    and "DecodeObject b = Inr obj"
    and "0 < ExpireAt obj" and "ExpireAt obj < timestamp"
  shows "\<exists>str. GetString tx k now timestamp = Inr str \<and> Value (Meta str) = None \<and> \<not> Exist str
           \<and> Get str = Inl ErrKeyNotFound \<and> String_obj.txn str = tx"
  using assms
  by (simp add: GetString_def decode_def zero_StringMeta_def ObjectString_def
      ObjectEncodingRaw_def Exist_def Get_def Let_def)

theorem GetString_expired_is_absent_witness:
  "\<exists>str. GetString (ex_txn [(MetaKey ex_db ''k'', encode (ex_string ''v'' 5 []))]) ''k'' 7 10 = Inr str
     \<and> Value (Meta str) = None \<and> \<not> Exist str \<and> Get str = Inl ErrKeyNotFound
     \<and> String_obj.txn str = ex_txn [(MetaKey ex_db ''k'', encode (ex_string ''v'' 5 []))]"
proof -
  let ?b = "encode (ex_string ''v'' 5 [])"
  let ?tx = "ex_txn [(MetaKey ex_db ''k'', ?b)]"
  have 1: "txn_Get (t ?tx) (MetaKey (db ?tx) ''k'') = Inr ?b"
    by (simp add: txn_Get_def ex_txn_def)
  have 2: "DecodeObject ?b = Inr (Object.truncate (Meta (ex_string ''v'' 5 [])))"
    unfolding encode_def
    by (rule DecodeObject_EncodeObject)
      (simp_all add: ex_string_def ex_id_def ObjectString_def ObjectEncodingRaw_def)
  have 3: "0 < ExpireAt (Object.truncate (Meta (ex_string ''v'' 5 [])))"
    and 4: "ExpireAt (Object.truncate (Meta (ex_string ''v'' 5 []))) < 10"
    by (simp_all add: ex_string_def Object.truncate_def)
  show ?thesis
    using GetString_expired_is_absent [OF 1 2 3 4] .
qed

subsection \<open>Strings and the expire index\<close>

lemma expireKey_noteq_ex_MetaKey: "expireKey m ts \<noteq> MetaKey ex_db k"
  by (simp add: expireKey_def hashExpireKeyPrefix_def expireKeyPrefix_def MetaKey_def ex_db_def
      Let_def)

text \<open>
  C4. A string with \<open>expire_at = 100\<close> has its meta entry and the expire-index entry
  for timestamp 100. \<^verbatim>\<open>Append\<close> writes the meta back with \<open>expire_at = 0\<close> and issues
  no other write: the expire-index entry of the old expiry is still there.
\<close>

theorem Append_leaves_expire_entry:
  "let mkey = MetaKey ex_db ''k'';
       s = ex_string ''v'' 100 [(mkey, encode (ex_string ''v'' 100 [])), (expireKey mkey 100, ex_id)]
   in case Append s ''w'' of Inl e \<Rightarrow> False
      | Inr (n, s') \<Rightarrow>
          ExpireAt (Meta s') = 0
          \<and> txn_Get (t (String_obj.txn s')) mkey = Inr (encode s')
          \<and> txn_Get (t (String_obj.txn s')) (expireKey mkey 100) = Inr ex_id
          \<and> oplog (t (String_obj.txn s')) = [OpSet mkey (encode s')]"
  using expireKey_noteq_ex_MetaKey [of "MetaKey ex_db ''k''" 100 "''k''"]
  by (simp add: Let_def Append_def ex_string_def ex_txn_def txn_Set_def txn_Get_def
      update_conv' encode_def)

text \<open>
  On the same string, \<^verbatim>\<open>Set\<close> without an expiry deletes the entry before it writes
  the meta.
\<close>

lemma Set_deletes_expire_entry:
  "let mkey = MetaKey ex_db ''k'';
       s = ex_string ''v'' 100 [(mkey, encode (ex_string ''v'' 100 [])), (expireKey mkey 100, ex_id)]
   in case Set s ''w'' [] now of Inl e \<Rightarrow> False
      | Inr s' \<Rightarrow>
          ExpireAt (Meta s') = 0
          \<and> txn_Get (t (String_obj.txn s')) (expireKey mkey 100) = Inl ErrNotFound
          \<and> oplog (t (String_obj.txn s')) = [OpDelete (expireKey mkey 100), OpSet mkey (encode s')]"
  using expireKey_noteq_ex_MetaKey [of "MetaKey ex_db ''k''" 100 "''k''"]
  by (simp add: Let_def Set_def unExpireAt_def ex_string_def ex_txn_def txn_Set_def txn_Get_def
      txn_Delete_def update_conv' delete_conv' encode_def)

subsection \<open>The scan loop of ZAnyOrderRange\<close>

text \<open>
  If the loop returns, it was not started on a key under the prefix that is too short to
  decode at an index inside the range: on such a key the body takes \<^verbatim>\<open>continue\<close> before
  it reaches \<^verbatim>\<open>i++\<close> and \<^verbatim>\<open>iter.Next()\<close>, and the next iteration is the same.
\<close>

lemma ZRange_loop_returns:
  assumes "ZRange_loop fmt s sp ws po start stop i it items = Some y"
  shows "\<not> (i \<le> stop \<and> it \<noteq> [] \<and> HasPrefix (fst (hd it)) sp \<and> start \<le> i
        \<and> length (fst (hd it)) < length sp + 10)"
proof (rule ZRange_loop.raw_induct [where P = "\<lambda>fmt s sp ws po start stop i it items y.
        \<not> (i \<le> stop \<and> it \<noteq> [] \<and> HasPrefix (fst (hd it)) sp \<and> start \<le> i
          \<and> length (fst (hd it)) < length sp + 10)", OF _ assms])
  fix loop :: "(float64 \<Rightarrow> bytes) \<Rightarrow> Store \<Rightarrow> bytes \<Rightarrow> bool \<Rightarrow> bool \<Rightarrow> int \<Rightarrow> int \<Rightarrow> int
     \<Rightarrow> (bytes \<times> bytes) list \<Rightarrow> bytes list \<Rightarrow> bytes list option"
  fix fmt s sp ws po start stop i it items y
  assume IH: "\<And>fmt s sp ws po start stop i it items y.
       loop fmt s sp ws po start stop i it items = Some y \<Longrightarrow>
       \<not> (i \<le> stop \<and> it \<noteq> [] \<and> HasPrefix (fst (hd it)) sp \<and> start \<le> i
          \<and> length (fst (hd it)) < length sp + 10)"
  assume step: "(if i \<le> stop \<and> it \<noteq> [] \<and> HasPrefix (fst (hd it)) sp
      then (if i \<ge> start
               \<and> length (fst (hd it)) < length sp + length '':'' + 8 + length '':''
            then loop fmt s sp ws po start stop i it items
            else (let items1 = (if i \<ge> start
                                then ZRange_collect fmt sp ws po (fst (hd it)) items
                                else items)
                  in case iter_Next s it of
                       Inl e \<Rightarrow> Some items1
                     | Inr it1 \<Rightarrow> loop fmt s sp ws po start stop (int64 (i + 1)) it1 items1))
      else Some items) = Some y"
  show "\<not> (i \<le> stop \<and> it \<noteq> [] \<and> HasPrefix (fst (hd it)) sp \<and> start \<le> i
          \<and> length (fst (hd it)) < length sp + 10)"
  proof
    assume stuck: "i \<le> stop \<and> it \<noteq> [] \<and> HasPrefix (fst (hd it)) sp \<and> start \<le> i
        \<and> length (fst (hd it)) < length sp + 10"
    with step have "loop fmt s sp ws po start stop i it items = Some y"
      by simp
    from IH [OF this] stuck show False
      by simp
  qed
qed

lemma ZRange_loop_stuck:
  assumes "i \<le> stop" and "it \<noteq> []" and "HasPrefix (fst (hd it)) sp" and "start \<le> i"
    and "length (fst (hd it)) < length sp + 10"
  shows "ZRange_loop fmt s sp ws po start stop i it items = None"
proof (cases "ZRange_loop fmt s sp ws po start stop i it items")
  case None
  then show ?thesis .
next
  case (Some y)
  from ZRange_loop_returns [OF this] assms show ?thesis
    by simp
qed

lemma le_append_right: "(xs :: bytes) \<le> xs @ ys"
  by (induction xs) simp_all

text \<open>
  C10. A sorted set of length 1 whose score prefix holds the key \<^verbatim>\<open><prefix>:x\<close>, too
  short for a score and a member: \<^verbatim>\<open>ZRANGE 0 -1\<close> never returns.
\<close>

theorem ZAnyOrderRange_short_key_never_returns:
  "ZAnyOrderRange fmt
     (ex_zset 1 0 [(ZSetScorePrefix ex_db ex_id @ '':x'', NilValue)]) 0 (- 1) False True = None"
proof -
  have "ZRange_loop fmt s (ZSetScorePrefix ex_db ex_id) False True 0 0 0
          [(ZSetScorePrefix ex_db ex_id @ '':x'', NilValue)] [] = None" for s
    by (rule ZRange_loop_stuck) (simp_all add: HasPrefix_def)
  then show ?thesis
    by (simp add: ZAnyOrderRange_def ex_zset_def ex_txn_def txn_Iter_def int64_def Let_def
        le_append_right)
qed

subsection \<open>ZRem on the last members\<close>

lemma ZRem_loop_log:
  "ZRem_loop s dkey sp ms scs d = Inr (n, s') \<Longrightarrow>
     unavailable s' = unavailable s
     \<and> (\<exists>ws. oplog s' = oplog s @ ws
           \<and> list_all (\<lambda>w. prefix (dkey @ '':'') (touched w) \<or> prefix sp (touched w)) ws)"
proof (induction s dkey sp ms scs d rule: ZRem_loop.induct)
  case (4 s dkey sp m ms sc scs d)
  from "4.prems" obtain s1 s2 where
    d1: "txn_Delete s (zsetScoreKey sp sc m) = Inr s1"
    and d2: "txn_Delete s1 (zsetMemberKey dkey m) = Inr s2"
    and rest: "ZRem_loop s2 dkey sp ms scs (d + 1) = Inr (n, s')"
    by (auto split: sum.splits)
  from "4.IH" [OF d1 d2 rest] obtain ws where
    u: "unavailable s' = unavailable s2" and ws: "oplog s' = oplog s2 @ ws"
    and ok: "list_all (\<lambda>w. prefix (dkey @ '':'') (touched w) \<or> prefix sp (touched w)) ws"
    by auto
  from txn_Delete_Inr [OF d1] txn_Delete_Inr [OF d2]
  have s2: "unavailable s2 = unavailable s"
    "oplog s2 = oplog s @ [OpDelete (zsetScoreKey sp sc m), OpDelete (zsetMemberKey dkey m)]"
    by simp_all
  have "oplog s' = oplog s @ ([OpDelete (zsetScoreKey sp sc m), OpDelete (zsetMemberKey dkey m)] @ ws)"
    using ws s2 by simp
  moreover have "list_all (\<lambda>w. prefix (dkey @ '':'') (touched w) \<or> prefix sp (touched w))
      ([OpDelete (zsetScoreKey sp sc m), OpDelete (zsetMemberKey dkey m)] @ ws)"
    using ok by (simp add: zsetScoreKey_def zsetMemberKey_def)
  ultimately have "\<exists>ws. oplog s' = oplog s @ ws
      \<and> list_all (\<lambda>w. prefix (dkey @ '':'') (touched w) \<or> prefix sp (touched w)) ws"
    by blast
  moreover have "unavailable s' = unavailable s"
    using u s2 by simp
  ultimately show ?case
    by simp
qed auto

text \<open>
  C3. When \<^verbatim>\<open>ZRem\<close> returns without error and leaves \<open>meta.Len = 0\<close>, the store of
  the same transaction has no entry under the meta key and, if the set had
  \<open>expire_at > 0\<close>, none under the expire-index key of that expiry: the last calls the
  transaction logged are the delete of the meta key and, with an expiry, the delete of
  the expire-index key.
\<close>

theorem ZRem_empty_deletes_meta:
  assumes "ZRem z members = Inr (deleted, z')" and "Len (meta z') = 0"
  shows "txn_Get (t (txn z')) (MetaKey (db (txn z)) (key z)) = Inl ErrNotFound
    \<and> (0 < ExpireAt (meta z) \<longrightarrow>
         txn_Get (t (txn z')) (expireKey (MetaKey (db (txn z)) (key z)) (ExpireAt (meta z)))
           = Inl ErrNotFound)
    \<and> (\<exists>ws. oplog (t (txn z')) = oplog (t (txn z)) @ ws @
           OpDelete (MetaKey (db (txn z)) (key z)) #
           (if 0 < ExpireAt (meta z)
            then [OpDelete (expireKey (MetaKey (db (txn z)) (key z)) (ExpireAt (meta z)))]
            else []))"
proof -
  let ?mkey = "MetaKey (db (txn z)) (key z)"
  let ?ekey = "expireKey ?mkey (ExpireAt (meta z))"
  let ?dkey = "DataKey (db (txn z)) (ID (meta z))"
  let ?sp = "ZSetScorePrefix (db (txn z)) (ID (meta z))"
  obtain scores where mg: "MGet z members = Inr scores"
    using assms(1) by (cases "MGet z members") (simp_all add: ZRem_def)
  obtain d s where loop: "ZRem_loop (t (txn z)) ?dkey ?sp members scores 0 = Inr (d, s)"
    using assms(1) mg
    by (cases "ZRem_loop (t (txn z)) ?dkey ?sp members scores 0") (auto simp: ZRem_def Let_def)
  from ZRem_loop_log [OF loop] obtain ws where
    ws: "oplog s = oplog (t (txn z)) @ ws" and u: "unavailable s = unavailable (t (txn z))"
    by auto
  let ?z1 = "z\<lparr>meta := (meta z)\<lparr>Len := int64 (Len (meta z) - d)\<rparr>, txn := (txn z)\<lparr>t := s\<rparr>\<rparr>"
  have tail: "ZRem z members =
      (if Len (meta ?z1) = 0
       then (case txn_Delete s ?mkey of Inl e \<Rightarrow> Inl e | Inr s1 \<Rightarrow>
               if ExpireAt (meta z) > 0
               then (case unExpireAt s1 ?mkey (ExpireAt (meta z)) of
                       Inl e \<Rightarrow> Inl e
                     | Inr s2 \<Rightarrow> Inr (d, ?z1\<lparr>txn := (txn ?z1)\<lparr>t := s2\<rparr>\<rparr>))
               else Inr (d, ?z1\<lparr>txn := (txn ?z1)\<lparr>t := s1\<rparr>\<rparr>))
       else (case updateMeta ?z1 of Inl e \<Rightarrow> Inl e | Inr z2 \<Rightarrow> Inr (d, z2)))"
    using mg loop by (simp add: ZRem_def Let_def cong: sum.case_cong if_cong)
  have len0: "Len (meta ?z1) = 0"
  proof (rule ccontr)
    assume n0: "Len (meta ?z1) \<noteq> 0"
    with assms(1) tail have "updateMeta ?z1 = Inr z'"
      by (cases "updateMeta ?z1") simp_all
    then have "Len (meta z') = Len (meta ?z1)"
      by (auto simp: updateMeta_def split: sum.splits)
    with assms(2) n0 show False by simp
  qed
  obtain s1 where d1: "txn_Delete s ?mkey = Inr s1"
    using assms(1) tail len0 by (cases "txn_Delete s ?mkey") simp_all
  from txn_Delete_Inr [OF d1]
  have s1: "\<not> unavailable s ?mkey" "kv s1 = AList.delete ?mkey (kv s)"
    "oplog s1 = oplog s @ [OpDelete ?mkey]" "unavailable s1 = unavailable s"
    by simp_all
  show ?thesis
  proof (cases "0 < ExpireAt (meta z)")
    case False
    with assms(1) tail len0 d1 have "t (txn z') = s1" by auto
    with s1 ws False show ?thesis
      by (simp add: txn_Get_def delete_conv')
  next
    case True
    with assms(1) tail len0 d1 obtain s2 where
      "unExpireAt s1 ?mkey (ExpireAt (meta z)) = Inr s2" and t': "t (txn z') = s2"
      by (cases "unExpireAt s1 ?mkey (ExpireAt (meta z))") auto
    with True have d2: "txn_Delete s1 ?ekey = Inr s2"
      by (simp add: unExpireAt_def)
    from txn_Delete_Inr [OF d2] s1
    have s2: "\<not> unavailable s2 ?ekey" "\<not> unavailable s2 ?mkey"
      "kv s2 = AList.delete ?ekey (AList.delete ?mkey (kv s))"
      "oplog s2 = oplog s @ [OpDelete ?mkey, OpDelete ?ekey]"
      by simp_all
    with t' ws True show ?thesis
      by (simp add: txn_Get_def delete_conv')
  qed
qed

theorem ZRem_empty_deletes_meta_witness:
  "let z = ex_zset 1 100 [(zsetMemberKey (DataKey ex_db ex_id) ''m'', EncodeFloat64 1)]
   in case ZRem z [''m''] of Inl e \<Rightarrow> False
      | Inr (n, z') \<Rightarrow>
          Len (meta z') = 0 \<and> 0 < ExpireAt (meta z)
          \<and> txn_Get (t (txn z')) (MetaKey ex_db ''z'') = Inl ErrNotFound
          \<and> txn_Get (t (txn z')) (expireKey (MetaKey ex_db ''z'') 100) = Inl ErrNotFound"
proof -
  let ?z = "ex_zset 1 100 [(zsetMemberKey (DataKey ex_db ex_id) ''m'', EncodeFloat64 1)]"
  obtain n z' where r: "ZRem ?z [''m''] = Inr (n, z')" and l: "Len (meta z') = 0"
    by (simp add: ZRem_def MGet_def txn_Get_def txn_Delete_def unExpireAt_def ex_zset_def
        ex_txn_def int64_def Let_def)
  from ZRem_empty_deletes_meta [OF r l] r l show ?thesis
    by (simp add: ex_zset_def ex_txn_def Let_def)
qed
subsection \<open>What the sorted-set operations write\<close>




lemma updateMeta_Inr:
  "updateMeta z = Inr z' \<Longrightarrow>
     z' = z\<lparr>txn := (txn z)\<lparr>t := (t (txn z))
            \<lparr>kv := AList.update (MetaKey (db (txn z)) (key z)) (encodeMeta (meta z)) (kv (t (txn z))),
             oplog := oplog (t (txn z)) @ [OpSet (MetaKey (db (txn z)) (key z)) (encodeMeta (meta z))]\<rparr>\<rparr>\<rparr>
     \<and> \<not> unavailable (t (txn z)) (MetaKey (db (txn z)) (key z))"
  by (auto simp: updateMeta_def dest!: txn_Set_Inr split: sum.splits)




lemma length_EncodeFloat64 [simp]: "length (EncodeFloat64 f) = 8"
  by (simp add: EncodeFloat64_def Let_def)






subsection \<open>ZADD twice, then ZSCORE\<close>

lemma word_of_be_bytes: "word_of_nat (be_nat (be_bytes 8 (unat u))) = (u :: 64 word)"
proof -
  have "unat u < 2 ^ 64"
    using unsigned_less [of u, where ?'a = nat] by simp
  then have "unat u mod 256 ^ 8 = unat u"
    by simp
  then show ?thesis
    by (simp add: be_nat_be_bytes)
qed

lemma DecodeFloat64_EncodeFloat64: "DecodeFloat64 (EncodeFloat64 f) = f"
proof (cases "bit f 63")
  case True
  then have "\<not> bit (NOT f) 63"
    by (simp add: bit_not_iff)
  with True show ?thesis
    by (simp add: DecodeFloat64_def EncodeFloat64_def word_of_be_bytes Let_def)
next
  case False
  then have "bit (f XOR push_bit 63 1) 63"
    by (simp add: bit_xor_iff bit_push_bit_iff)
  moreover have "(a XOR b) XOR b = a" for a b :: "64 word"
    by (simp add: xor.assoc)
  ultimately show ?thesis
    using False by (simp add: DecodeFloat64_def EncodeFloat64_def word_of_be_bytes Let_def)
qed

lemma float64_eq_sym: "float64_eq a b \<Longrightarrow> float64_eq b a"
  by (auto simp: float64_eq_def)

lemma float64_eq_refl: "\<not> isNaN a \<Longrightarrow> float64_eq a a"
  by (simp add: float64_eq_def)

lemma int64_idem [simp]: "int64 (int64 x) = int64 x"
  by (simp add: int64_def)

lemma int64_id: "- (2 ^ 63) \<le> x \<Longrightarrow> x < 2 ^ 63 \<Longrightarrow> int64 x = x"
  by (simp add: int64_def signed_take_bit_int_eq_self)

lemma MGet_single:
  "MGet z [m] =
     (case txn_Get (t (txn z)) (zsetMemberKey (DataKey (db (txn z)) (ID (meta z))) m) of
        Inl e \<Rightarrow> if e = ErrNotFound then Inr [None] else Inl e
      | Inr v \<Rightarrow> Inr [Some v])"
  by (simp add: MGet_def Let_def split: sum.splits)

lemma ZAdd_single:
  assumes "ZAdd z [m] [sc] = Inr (n, z')"
  obtains old s1 where
    "old = (if 0 < Len (meta z)
            then (case txn_Get (t (txn z)) (zsetMemberKey (DataKey (db (txn z)) (ID (meta z))) m) of
                    Inl e \<Rightarrow> None | Inr v \<Rightarrow> Some v)
            else None)"
    and "ZAdd_member (t (txn z)) (DataKey (db (txn z)) (ID (meta z)))
           (ZSetScorePrefix (db (txn z)) (ID (meta z))) m sc old = Inr (n, s1)"
    and "updateMeta (z\<lparr>meta := (meta z)\<lparr>Len := int64 (Len (meta z) + n)\<rparr>,
                       txn := (txn z)\<lparr>t := s1\<rparr>\<rparr>) = Inr z'"
proof -
  let ?mk = "zsetMemberKey (DataKey (db (txn z)) (ID (meta z))) m"
  let ?olds = "if Len (meta z) > 0 then MGet z [m] else Inr (replicate (length [m]) None)"
  let ?old = "if 0 < Len (meta z)
              then (case txn_Get (t (txn z)) ?mk of Inl e \<Rightarrow> None | Inr v \<Rightarrow> Some v) else None"
  have o: "?olds = Inr [?old]"
    using assms
    by (cases "0 < Len (meta z)"; cases "txn_Get (t (txn z)) ?mk")
      (auto simp: ZAdd_def MGet_single split: if_splits)
  obtain k s1 where mem: "ZAdd_member (t (txn z)) (DataKey (db (txn z)) (ID (meta z)))
           (ZSetScorePrefix (db (txn z)) (ID (meta z))) m sc ?old = Inr (k, s1)"
    using assms o
    by (cases "ZAdd_member (t (txn z)) (DataKey (db (txn z)) (ID (meta z)))
           (ZSetScorePrefix (db (txn z)) (ID (meta z))) m sc ?old")
      (auto simp: ZAdd_def Let_def)
  let ?z1 = "z\<lparr>meta := (meta z)\<lparr>Len := int64 (Len (meta z) + k)\<rparr>, txn := (txn z)\<lparr>t := s1\<rparr>\<rparr>"
  from assms o mem have "updateMeta ?z1 = Inr z' \<and> k = n"
    by (cases "updateMeta ?z1") (auto simp: ZAdd_def Let_def)
  with mem that [of ?old s1] show ?thesis
    by blast
qed

lemma ZAdd_member_write:
  assumes "ZAdd_member s dkey sp m sc old = Inr (k, s1)"
    and "\<not> (old \<noteq> None \<and> float64_eq sc (DecodeFloat64 (the old)))"
  shows "k = (if old = None then 1 else 0)"
    and "\<not> unavailable s (zsetMemberKey dkey m)"
    and "unavailable s1 = unavailable s"
    and "kv s1 = AList.update (zsetScoreKey sp (EncodeFloat64 sc) m) NilValue
                  (AList.update (zsetMemberKey dkey m) (EncodeFloat64 sc)
                    (case old of None \<Rightarrow> kv s | Some ov \<Rightarrow> AList.delete (zsetScoreKey sp ov m) (kv s)))"
    and "oplog s1 = oplog s @ (case old of None \<Rightarrow> [] | Some ov \<Rightarrow> [OpDelete (zsetScoreKey sp ov m)])
                  @ [OpSet (zsetMemberKey dkey m) (EncodeFloat64 sc),
                     OpSet (zsetScoreKey sp (EncodeFloat64 sc) m) NilValue]"
proof -
  from assms obtain a b where
    a: "(case old of None \<Rightarrow> Inr s | Some ov \<Rightarrow> txn_Delete s (zsetScoreKey sp ov m)) = Inr a"
    and b: "txn_Set a (zsetMemberKey dkey m) (EncodeFloat64 sc) = Inr b"
    and c: "txn_Set b (zsetScoreKey sp (EncodeFloat64 sc) m) NilValue = Inr s1"
    and k: "k = (if old = None then 1 else 0)"
    by (auto simp: ZAdd_member_def Let_def split: sum.splits)
  from a have a': "unavailable a = unavailable s"
    "kv a = (case old of None \<Rightarrow> kv s | Some ov \<Rightarrow> AList.delete (zsetScoreKey sp ov m) (kv s))"
    "oplog a = oplog s @ (case old of None \<Rightarrow> [] | Some ov \<Rightarrow> [OpDelete (zsetScoreKey sp ov m)])"
    by (cases old; auto dest!: txn_Delete_Inr)+
  from txn_Set_Inr [OF b] txn_Set_Inr [OF c] a' k
  show "k = (if old = None then 1 else 0)"
    and "\<not> unavailable s (zsetMemberKey dkey m)"
    and "unavailable s1 = unavailable s"
    and "kv s1 = AList.update (zsetScoreKey sp (EncodeFloat64 sc) m) NilValue
                  (AList.update (zsetMemberKey dkey m) (EncodeFloat64 sc)
                    (case old of None \<Rightarrow> kv s | Some ov \<Rightarrow> AList.delete (zsetScoreKey sp ov m) (kv s)))"
    and "oplog s1 = oplog s @ (case old of None \<Rightarrow> [] | Some ov \<Rightarrow> [OpDelete (zsetScoreKey sp ov m)])
                  @ [OpSet (zsetMemberKey dkey m) (EncodeFloat64 sc),
                     OpSet (zsetScoreKey sp (EncodeFloat64 sc) m) NilValue]"
    by simp_all
qed

lemma ZAdd_twice_on_object:
  assumes len: "0 \<le> Len (meta z)" "Len (meta z) < 2 ^ 63 - 1"
    and nan: "\<not> isNaN s'"
    and a1: "ZAdd z [m] [s] = Inr (n1, z1)"
    and a2: "ZAdd z1 [m] [s'] = Inr (n2, z2)"
  shows "\<exists>x e. ZScore fmt z2 m = Inr (Some (fmt x)) \<and> float64_eq x s'
      \<and> n2 = 0 \<and> Len (meta z2) = Len (meta z1) \<and> 0 < Len (meta z1)
      \<and> txn_Get (t (txn z1)) (zsetMemberKey (DataKey (db (txn z)) (ID (meta z))) m) = Inr e
      \<and> (\<not> float64_eq s' (DecodeFloat64 e) \<longrightarrow>
           x = s'
           \<and> oplog (t (txn z2)) = oplog (t (txn z1)) @
               [OpDelete (zsetScoreKey (ZSetScorePrefix (db (txn z)) (ID (meta z))) e m),
                OpSet (zsetMemberKey (DataKey (db (txn z)) (ID (meta z))) m) (EncodeFloat64 s'),
                OpSet (zsetScoreKey (ZSetScorePrefix (db (txn z)) (ID (meta z))) (EncodeFloat64 s') m)
                  NilValue,
                OpSet (MetaKey (db (txn z)) (key z)) (encodeMeta (meta z2))])"
proof -
  let ?d = "db (txn z)"
  let ?dkey = "DataKey ?d (ID (meta z))"
  let ?sp = "ZSetScorePrefix ?d (ID (meta z))"
  let ?mk = "zsetMemberKey ?dkey m"
  let ?mkey = "MetaKey ?d (key z)"
  \<comment> \<open>the first ZAdd\<close>
  from a1 obtain old1 s1 where
    o1: "old1 = (if 0 < Len (meta z)
                 then (case txn_Get (t (txn z)) ?mk of Inl e \<Rightarrow> None | Inr v \<Rightarrow> Some v) else None)"
    and mem1: "ZAdd_member (t (txn z)) ?dkey ?sp m s old1 = Inr (n1, s1)"
    and um1: "updateMeta (z\<lparr>meta := (meta z)\<lparr>Len := int64 (Len (meta z) + n1)\<rparr>,
                           txn := (txn z)\<lparr>t := s1\<rparr>\<rparr>) = Inr z1"
    by (rule ZAdd_single)
  from updateMeta_Inr [OF um1]
  have z1: "meta z1 = (meta z)\<lparr>Len := int64 (Len (meta z) + n1)\<rparr>" "key z1 = key z"
    "db (txn z1) = ?d" "unavailable (t (txn z1)) = unavailable s1"
    "kv (t (txn z1)) = AList.update ?mkey (encodeMeta (meta z1)) (kv s1)"
    by simp_all
  have first: "(n1 = 0 \<or> n1 = 1) \<and> (Len (meta z) = 0 \<longrightarrow> n1 = 1)
      \<and> \<not> unavailable s1 ?mk \<and> (\<exists>e. map_of (kv s1) ?mk = Some e)"
  proof (cases "old1 \<noteq> None \<and> float64_eq s (DecodeFloat64 (the old1))")
    case True
    with mem1 have "n1 = 0" "s1 = t (txn z)"
      by (simp_all add: ZAdd_member_def)
    moreover from True o1 have "0 < Len (meta z)"
      and "txn_Get (t (txn z)) ?mk = Inr (the old1)"
      by (auto split: if_splits sum.splits)
    ultimately show ?thesis
      by (auto simp: txn_Get_def split: if_splits option.splits)
  next
    case False
    from ZAdd_member_write [OF mem1 False] o1 show ?thesis
      by (auto simp: update_conv' split: if_splits)
  qed
  then obtain e where e: "map_of (kv s1) ?mk = Some e" and av: "\<not> unavailable s1 ?mk"
    by auto
  have get1: "txn_Get (t (txn z1)) ?mk = Inr e"
    using e av z1 by (simp add: txn_Get_def update_conv')
  have "0 < Len (meta z) + n1" "Len (meta z) + n1 < 2 ^ 63"
    using first len by auto
  then have len1: "0 < Len (meta z1)"
    using z1 by (simp add: int64_id)
  \<comment> \<open>the second ZAdd\<close>
  from a2 obtain old2 s2 where
    o2: "old2 = (if 0 < Len (meta z1)
                 then (case txn_Get (t (txn z1)) (zsetMemberKey (DataKey (db (txn z1)) (ID (meta z1))) m) of
                         Inl e \<Rightarrow> None | Inr v \<Rightarrow> Some v) else None)"
    and mem2: "ZAdd_member (t (txn z1)) (DataKey (db (txn z1)) (ID (meta z1)))
                 (ZSetScorePrefix (db (txn z1)) (ID (meta z1))) m s' old2 = Inr (n2, s2)"
    and um2: "updateMeta (z1\<lparr>meta := (meta z1)\<lparr>Len := int64 (Len (meta z1) + n2)\<rparr>,
                           txn := (txn z1)\<lparr>t := s2\<rparr>\<rparr>) = Inr z2"
    by (rule ZAdd_single)
  from o2 len1 get1 z1 have old2: "old2 = Some e"
    by simp
  from mem2 z1 old2 have mem2': "ZAdd_member (t (txn z1)) ?dkey ?sp m s' (Some e) = Inr (n2, s2)"
    by simp
  from updateMeta_Inr [OF um2] z1
  have z2: "meta z2 = (meta z1)\<lparr>Len := int64 (Len (meta z1) + n2)\<rparr>"
    "db (txn z2) = ?d" "ID (meta z2) = ID (meta z)" "unavailable (t (txn z2)) = unavailable s2"
    "kv (t (txn z2)) = AList.update ?mkey (encodeMeta (meta z2)) (kv s2)"
    "oplog (t (txn z2)) = oplog s2 @ [OpSet ?mkey (encodeMeta (meta z2))]"
    by simp_all
  show ?thesis
  proof (cases "float64_eq s' (DecodeFloat64 e)")
    case True
    with mem2' have s2: "s2 = t (txn z1)" and n2: "n2 = 0"
      by (simp_all add: ZAdd_member_def)
    from n2 z1 z2 have l: "Len (meta z2) = Len (meta z1)"
      by simp
    from s2 z2 get1 have "txn_Get (t (txn z2)) ?mk = Inr e"
      by (simp add: txn_Get_def update_conv' split: if_splits)
    with z2 have "ZScore fmt z2 m = Inr (Some (fmt (DecodeFloat64 e)))"
      by (simp add: ZScore_def)
    with True get1 n2 l len1 float64_eq_sym show ?thesis
      by blast
  next
    case False
    then have w: "\<not> (Some e \<noteq> None \<and> float64_eq s' (DecodeFloat64 (the (Some e))))"
      by simp
    note wr = ZAdd_member_write [OF mem2' w]
    from wr z1 z2 av have "txn_Get (t (txn z2)) ?mk = Inr (EncodeFloat64 s')"
      by (simp add: txn_Get_def update_conv')
    with z2 have sc: "ZScore fmt z2 m = Inr (Some (fmt s'))"
      by (simp add: ZScore_def DecodeFloat64_EncodeFloat64)
    from wr have n2: "n2 = 0" by simp
    with z1 z2 have l: "Len (meta z2) = Len (meta z1)"
      by simp
    from wr z2 have "oplog (t (txn z2)) = oplog (t (txn z1)) @
               [OpDelete (zsetScoreKey ?sp e m), OpSet ?mk (EncodeFloat64 s'),
                OpSet (zsetScoreKey ?sp (EncodeFloat64 s') m) NilValue,
                OpSet ?mkey (encodeMeta (meta z2))]"
      by simp
    with sc n2 l len1 get1 float64_eq_refl [OF nan] show ?thesis
      by blast
  qed
qed

lemma in_int64_int64 [simp]: "in_int64 (int64 x)"
  using signed_take_bit_int_greater_eq_minus_exp [of 63 x] signed_take_bit_int_less_exp [of 63 x]
  by (simp add: in_int64_def int64_def)

lemma be_nat_take1: "be_nat (take (Suc 0) b) < 256"
  by (cases b) (simp_all add: be_nat_def)

lemma decodeMeta_wf:
  assumes "decodeMeta z0 b = Inr z"
  shows "wf_ZSetMeta (meta z) \<and> key z = key z0 \<and> txn z = txn z0"
proof -
  from assms obtain obj where d: "DecodeObject b = Inr obj" and ty: "Type obj = ObjectZSet"
    and z: "z = z0\<lparr>meta := (set_Object obj (meta z0))
                  \<lparr>Len := Uint64_int64 (take 8 (drop ObjectEncodingLength b))\<rparr>\<rparr>"
    by (auto simp: decodeMeta_def Let_def split: sum.splits if_splits)
  from d have "length (ID obj) = 16" "Encoding obj < 256" "in_int64 (CreatedAt obj)"
    "in_int64 (UpdatedAt obj)" "in_int64 (ExpireAt obj)"
    by (auto simp: DecodeObject_def ObjectEncodingLength_def Uint64_int64_def be_nat_take1
        split: if_splits)
  with ty z show ?thesis
    by (simp add: wf_ZSetMeta_def set_Object_def Uint64_int64_def)
qed

lemma GetZSet_wf:
  assumes "GetZSet tx k now uuid = Inr z" and "length uuid = 16" and "in_int64 now"
  shows "wf_ZSetMeta (meta z) \<and> key z = k \<and> txn z = tx"
proof (cases "txn_Get (t tx) (MetaKey (db tx) k)")
  case (Inl e)
  with assms show ?thesis
    by (auto simp: GetZSet_def Let_def wf_ZSetMeta_def ObjectEncodingHT_def in_int64_def
        split: if_splits)
next
  case (Inr b)
  with assms(1) have "decodeMeta \<lparr>meta = zero_ZSetMeta, key = k, txn = tx\<rparr> b = Inr z"
    by (simp add: GetZSet_def Let_def)
  from decodeMeta_wf [OF this] show ?thesis
    by simp
qed

lemma decodeMeta_encodeMeta:
  assumes "wf_ZSetMeta mt"
  shows "decodeMeta \<lparr>meta = zero_ZSetMeta, key = k, txn = tx\<rparr> (encodeMeta mt)
           = Inr \<lparr>meta = mt, key = k, txn = tx\<rparr>"
proof -
  from assms have d: "DecodeObject (encodeMeta mt) = Inr (Object.truncate mt)"
    unfolding encodeMeta_def
    by (intro DecodeObject_EncodeObject) (simp_all add: wf_ZSetMeta_def in_int64_def ObjectZSet_def)
  have l: "Uint64_int64 (PutUint64 (Len mt)) = Len mt"
    using assms by (intro Uint64_PutUint64) (simp_all add: wf_ZSetMeta_def in_int64_def)
  have "(set_Object (Object.truncate mt) zero_ZSetMeta)\<lparr>Len := Len mt\<rparr> = mt"
    by (simp add: set_Object_def Object.truncate_def zero_ZSetMeta_def)
  with d l assms show ?thesis
    by (simp add: decodeMeta_def encodeMeta_def Let_def ObjectEncodingLength_def
        Object.truncate_def wf_ZSetMeta_def)
qed

lemma GetZSet_after_updateMeta:
  assumes "wf_ZSetMeta (meta z)" and "updateMeta z = Inr z'"
  shows "GetZSet (txn z') (key z) now uuid = Inr z'"
proof -
  note u = updateMeta_Inr [OF assms(2)]
  from u have "txn_Get (t (txn z')) (MetaKey (db (txn z')) (key z)) = Inr (encodeMeta (meta z))"
    by (simp add: txn_Get_def update_conv')
  moreover from u have "z' = \<lparr>meta = meta z, key = key z, txn = txn z'\<rparr>"
    by simp
  ultimately show ?thesis
    using decodeMeta_encodeMeta [OF assms(1), of "key z" "txn z'"]
    by (simp add: GetZSet_def Let_def)
qed

lemma ZAdd_reload:
  assumes "ZAdd z members scores = Inr (n, z')" and "wf_ZSetMeta (meta z)"
  shows "GetZSet (txn z') (key z) now uuid = Inr z' \<and> wf_ZSetMeta (meta z')"
proof -
  let ?dkey = "DataKey (db (txn z)) (ID (meta z))"
  let ?sp = "ZSetScorePrefix (db (txn z)) (ID (meta z))"
  let ?olds = "if Len (meta z) > 0 then MGet z members else Inr (replicate (length members) None)"
  obtain olds where o: "?olds = Inr olds"
    using assms(1) by (cases ?olds) (simp_all add: ZAdd_def)
  obtain a s where loop: "ZAdd_loop (t (txn z)) ?dkey ?sp members scores olds 0 = Inr (a, s)"
    using assms(1) o
    by (cases "ZAdd_loop (t (txn z)) ?dkey ?sp members scores olds 0") (auto simp: ZAdd_def Let_def)
  let ?z1 = "z\<lparr>meta := (meta z)\<lparr>Len := int64 (Len (meta z) + a)\<rparr>, txn := (txn z)\<lparr>t := s\<rparr>\<rparr>"
  from assms(1) o loop have um: "updateMeta ?z1 = Inr z'"
    by (cases "updateMeta ?z1") (simp_all add: ZAdd_def Let_def)
  from assms(2) have wf1: "wf_ZSetMeta (meta ?z1)"
    by (simp add: wf_ZSetMeta_def)
  from GetZSet_after_updateMeta [OF wf1 um, of now uuid] updateMeta_Inr [OF um] wf1
  show ?thesis
    by simp
qed

text \<open>
  C5. Three commands on the key \<open>k\<close>, each loading the sorted set with \<^verbatim>\<open>GetZSet\<close> from
  the store the command before it left: \<^verbatim>\<open>ZADD k s m\<close>, \<^verbatim>\<open>ZADD k s' m\<close> and
  \<^verbatim>\<open>ZSCORE k m\<close>. Let the first load give a set with \<open>0 \<le> meta.Len < 2^63 - 1\<close> (the
  clock an int64, the fresh id 16 bytes), let \<open>s'\<close> not be a NaN, and let the two
  \<^verbatim>\<open>ZAdd\<close> calls and the loads return without error. Then the set exists for the third
  command and \<^verbatim>\<open>ZScore m\<close> returns the formatted score \<open>x\<close> with \<open>x == s'\<close>; the
  second \<^verbatim>\<open>ZAdd\<close> adds 0 and leaves \<open>meta.Len\<close> as it was. After the first call the
  member key holds some encoded score \<open>e\<close>; when \<open>s'\<close> differs from the score of \<open>e\<close>,
  the second call issues exactly four store calls: it deletes the score-index key of
  \<open>e\<close>, sets the member key to the encoding of \<open>s'\<close>, sets the score-index key of
  \<open>s'\<close>, and writes the meta; and \<open>x\<close> is \<open>s'\<close> itself.
\<close>

theorem ZAdd_twice_then_ZScore:
  assumes g1: "GetZSet tx k now1 uuid1 = Inr z"
    and fresh: "length uuid1 = 16" "in_int64 now1"
    and len: "0 \<le> Len (meta z)" "Len (meta z) < 2 ^ 63 - 1"
    and nan: "\<not> isNaN s'"
    and a1: "ZAdd z [m] [s] = Inr (n1, z1)"
    and g2: "GetZSet (txn z1) k now2 uuid2 = Inr z1'"
    and a2: "ZAdd z1' [m] [s'] = Inr (n2, z2)"
    and g3: "GetZSet (txn z2) k now3 uuid3 = Inr z2'"
  shows "\<exists>x e. ZSet_Exist z2' \<and> ZScore fmt z2' m = Inr (Some (fmt x)) \<and> float64_eq x s'
      \<and> n2 = 0 \<and> Len (meta z2) = Len (meta z1)
      \<and> txn_Get (t (txn z1)) (zsetMemberKey (DataKey (db tx) (ID (meta z))) m) = Inr e
      \<and> (\<not> float64_eq s' (DecodeFloat64 e) \<longrightarrow>
           x = s'
           \<and> oplog (t (txn z2)) = oplog (t (txn z1)) @
               [OpDelete (zsetScoreKey (ZSetScorePrefix (db tx) (ID (meta z))) e m),
                OpSet (zsetMemberKey (DataKey (db tx) (ID (meta z))) m) (EncodeFloat64 s'),
                OpSet (zsetScoreKey (ZSetScorePrefix (db tx) (ID (meta z))) (EncodeFloat64 s') m)
                  NilValue,
                OpSet (MetaKey (db tx) k) (encodeMeta (meta z2))])"
proof -
  from GetZSet_wf [OF g1 fresh] have z: "wf_ZSetMeta (meta z)" "key z = k" "txn z = tx"
    by simp_all
  from ZAdd_reload [OF a1 z(1), of now2 uuid2] g2 z(2)
  have z1: "z1' = z1" "wf_ZSetMeta (meta z1)"
    by simp_all
  from a1 have k1: "key z1 = key z"
    by (elim ZAdd_single) (auto dest!: updateMeta_Inr)
  from a2 z1 have a2': "ZAdd z1 [m] [s'] = Inr (n2, z2)"
    by simp
  from ZAdd_reload [OF a2' z1(2), of now3 uuid3] g3 k1 z(2)
  have z2: "z2' = z2"
    by simp
  from ZAdd_twice_on_object [OF len nan a1 a2', of fmt] obtain x e where
    r: "ZScore fmt z2 m = Inr (Some (fmt x))" "float64_eq x s'" "n2 = 0"
      "Len (meta z2) = Len (meta z1)" "0 < Len (meta z1)"
      "txn_Get (t (txn z1)) (zsetMemberKey (DataKey (db (txn z)) (ID (meta z))) m) = Inr e"
      "\<not> float64_eq s' (DecodeFloat64 e) \<longrightarrow>
           x = s'
           \<and> oplog (t (txn z2)) = oplog (t (txn z1)) @
               [OpDelete (zsetScoreKey (ZSetScorePrefix (db (txn z)) (ID (meta z))) e m),
                OpSet (zsetMemberKey (DataKey (db (txn z)) (ID (meta z))) m) (EncodeFloat64 s'),
                OpSet (zsetScoreKey (ZSetScorePrefix (db (txn z)) (ID (meta z))) (EncodeFloat64 s') m)
                  NilValue,
                OpSet (MetaKey (db (txn z)) (key z)) (encodeMeta (meta z2))]"
    by blast
  from r(4,5) have "ZSet_Exist z2"
    by (simp add: ZSet_Exist_def)
  with r z z2 show ?thesis
    by auto
qed

theorem ZAdd_twice_then_ZScore_witness:
  "let z = projr (GetZSet (ex_txn []) ''z'' 1 ex_id);
       r1 = ZAdd z [''m''] [ex_score];
       z1 = snd (projr r1);
       r2 = ZAdd z1 [''m''] [ex_score2];
       z2 = snd (projr r2)
   in z = ex_zset 0 0 [] \<and> r1 = Inr (1, z1) \<and> GetZSet (txn z1) ''z'' 2 ex_old_id = Inr z1
      \<and> r2 = Inr (0, z2) \<and> GetZSet (txn z2) ''z'' 3 ex_old_id = Inr z2
      \<and> ZSet_Exist z2
      \<and> ZScore EncodeFloat64 z2 ''m'' = Inr (Some (EncodeFloat64 ex_score2))
      \<and> Len (meta z2) = Len (meta z1)
      \<and> oplog (t (txn z2)) = oplog (t (txn z1)) @
           [OpDelete (zsetScoreKey (ZSetScorePrefix ex_db ex_id) (EncodeFloat64 ex_score) ''m''),
            OpSet (zsetMemberKey (DataKey ex_db ex_id) ''m'') (EncodeFloat64 ex_score2),
            OpSet (zsetScoreKey (ZSetScorePrefix ex_db ex_id) (EncodeFloat64 ex_score2) ''m'') NilValue,
            OpSet (MetaKey ex_db ''z'') (encodeMeta (meta z2))]"
proof -
  let ?z = "ex_zset 0 0 []"
  let ?r1 = "ZAdd ?z [''m''] [ex_score]"
  let ?z1 = "snd (projr ?r1)"
  let ?r2 = "ZAdd ?z1 [''m''] [ex_score2]"
  let ?z2 = "snd (projr ?r2)"
  have ne: "\<not> float64_eq ex_score2 ex_score" "\<not> isNaN ex_score2"
    by (simp_all add: float64_eq_def isNaN_def ex_score_def ex_score2_def)
  have g1: "GetZSet (ex_txn []) ''z'' 1 ex_id = Inr ?z"
    by (simp add: GetZSet_def txn_Get_def ex_zset_def ex_txn_def Let_def)
  have f: "length ex_id = 16" "in_int64 1"
    by (simp_all add: ex_id_def in_int64_def)
  have w: "wf_ZSetMeta (meta ?z)" "txn ?z = ex_txn []"
    using GetZSet_wf [OF g1 f] by simp_all
  have a1: "?r1 = Inr (1, ?z1)"
    by (simp add: ZAdd_def ZAdd_member_def updateMeta_def txn_Set_def ex_zset_def ex_txn_def
        int64_def Let_def)
  have g: "txn_Get (t (txn ?z1)) (zsetMemberKey (DataKey ex_db ex_id) ''m'') = Inr (EncodeFloat64 ex_score)"
    by (simp add: ZAdd_def ZAdd_member_def updateMeta_def txn_Set_def txn_Get_def ex_zset_def
        ex_txn_def int64_def Let_def update_conv')
  have a2: "?r2 = Inr (0, ?z2)"
    using ne
    by (simp add: ZAdd_def MGet_def ZAdd_member_def updateMeta_def txn_Set_def txn_Get_def
        txn_Delete_def ex_zset_def ex_txn_def int64_def Let_def update_conv'
        DecodeFloat64_EncodeFloat64)
  have k: "key ?z = ''z''" "key ?z1 = ''z''"
    by (simp_all add: ZAdd_def ZAdd_member_def updateMeta_def txn_Set_def ex_zset_def ex_txn_def
        int64_def Let_def)
  from ZAdd_reload [OF a1 w(1), of 2 ex_old_id] k
  have g2: "GetZSet (txn ?z1) ''z'' 2 ex_old_id = Inr ?z1" and w1: "wf_ZSetMeta (meta ?z1)"
    by simp_all
  from ZAdd_reload [OF a2 w1, of 3 ex_old_id] k
  have g3: "GetZSet (txn ?z2) ''z'' 3 ex_old_id = Inr ?z2"
    by simp
  have z: "0 \<le> Len (meta ?z)" "Len (meta ?z) < 2 ^ 63 - 1" "db (ex_txn []) = ex_db"
    "ID (meta ?z) = ex_id"
    by (simp_all add: ex_zset_def ex_txn_def)
  from ZAdd_twice_then_ZScore [OF g1 f z(1) z(2) ne(2) a1 g2 a2 g3, of EncodeFloat64] g ne
  have "ZSet_Exist ?z2
      \<and> ZScore EncodeFloat64 ?z2 ''m'' = Inr (Some (EncodeFloat64 ex_score2))
      \<and> Len (meta ?z2) = Len (meta ?z1)
      \<and> oplog (t (txn ?z2)) = oplog (t (txn ?z1)) @
           [OpDelete (zsetScoreKey (ZSetScorePrefix ex_db ex_id) (EncodeFloat64 ex_score) ''m''),
            OpSet (zsetMemberKey (DataKey ex_db ex_id) ''m'') (EncodeFloat64 ex_score2),
            OpSet (zsetScoreKey (ZSetScorePrefix ex_db ex_id) (EncodeFloat64 ex_score2) ''m'') NilValue,
            OpSet (MetaKey ex_db ''z'') (encodeMeta (meta ?z2))]"
    by (auto simp add: z DecodeFloat64_EncodeFloat64)
  with g1 a1 g2 a2 g3 show ?thesis
    unfolding Let_def by simp
qed

subsection \<open>The reaper on a re-created key\<close>

lemma be_bytes_mod: "be_bytes n (v mod 256 ^ n) = be_bytes n v"
proof -
  have "char_of ((v mod 256 ^ n) div 256 ^ i) = char_of (v div 256 ^ i)" if "i < n" for i
  proof -
    have p: "(256 :: nat) ^ k = 2 ^ (8 * k)" for k
      by (simp add: power_mult)
    have "8 \<le> 8 * n - 8 * i"
      using that by arith
    then have "take_bit 8 (drop_bit (8 * i) (take_bit (8 * n) v)) = take_bit 8 (drop_bit (8 * i) v)"
      by (simp add: drop_bit_take_bit min_def)
    then show ?thesis
      by (simp add: char_of_eq_iff p take_bit_eq_mod drop_bit_eq_div)
  qed
  then show ?thesis
    by (simp add: be_bytes_def)
qed

lemma DBID_Bytes_toDBID [simp]: "DBID_Bytes (toDBID (DBID_Bytes n)) = DBID_Bytes n"
  by (simp only: DBID_Bytes_def toDBID_def be_nat_be_bytes be_bytes_mod)

lemma length_DBID_Bytes [simp]: "length (DBID_Bytes n) = 3"
  by (simp add: DBID_Bytes_def)

lemma splitMetaKey_MetaKey:
  "CHR '':'' \<notin> set (Namespace d) \<Longrightarrow>
     splitMetaKey (MetaKey d k) = Inr (Namespace d, toDBID (DBID_Bytes (DB.ID d)), '':'' @ k)"
  unfolding MetaKey_def by (rule splitMetaKey_wellformed) simp_all

lemma toTikvDataKey_DataKey:
  "toTikvDataKey (Namespace d) (toDBID (DBID_Bytes (DB.ID d))) i = DataKey d i"
  by (simp add: toTikvDataKey_def DataKey_def)

lemma length_ID_DecodeObject: "DecodeObject b = Inr obj \<Longrightarrow> length (ID obj) = 16"
  by (auto simp: DecodeObject_def ObjectEncodingLength_def split: if_splits)

lemma length_ID_getObject: "getObject tx mkey = Inr obj \<Longrightarrow> length (ID obj) = 16"
  by (auto simp: getObject_def dest: length_ID_DecodeObject split: sum.splits if_splits)

lemma map_of_filter_prefix:
  "map_of (filter (\<lambda>e. \<not> prefix p (fst e)) al) k = (if prefix p k then None else map_of al k)"
  by (induction al) auto

lemma DataKey_not_prefix_other_id:
  assumes "length i = length j" and "i \<noteq> j"
  shows "\<not> prefix (DataKey d i) (DataKey d j @ r)"
  using assms by (auto simp: DataKey_def prefix_def)

lemma DataKey_not_prefix_MetaKey: "\<not> prefix (DataKey d i) (MetaKey d k)"
  by (auto simp: DataKey_def MetaKey_def prefix_def)

text \<open>
  C1. Let the reaper reach an expire-index entry for the meta key \<^verbatim>\<open>NS:D:M:K\<close> whose
  value \<open>i\<close>, a 16-byte object id, differs from the id of the meta now stored under that
  key, and let \<^verbatim>\<open>doExpire\<close> return without error. Then it has issued one store call,
  the garbage collection of the old id's data prefix \<^verbatim>\<open>NS:D:D:i\<close>; the entries left are
  those not under that prefix; the meta key reads as before, and so does every key under
  the data prefix of the re-created object.
\<close>

theorem doExpire_recreated_key:
  assumes ns: "CHR '':'' \<notin> set (Namespace d)"
    and obj: "getObject tx (MetaKey d k) = Inr obj"
    and len: "length i = 16"
    and diff: "i \<noteq> ID obj"
    and ok: "doExpire tx (MetaKey d k) i expAt = Inr tx'"
  shows "oplog (t tx') = oplog (t tx) @ [OpGC (DataKey d i)]
    \<and> unavailable (t tx') = unavailable (t tx)
    \<and> kv (t tx') = filter (\<lambda>e. \<not> prefix (DataKey d i) (fst e)) (kv (t tx))
    \<and> txn_Get (t tx') (MetaKey d k) = txn_Get (t tx) (MetaKey d k)
    \<and> (\<forall>r. txn_Get (t tx') (DataKey d (ID obj) @ r) = txn_Get (t tx) (DataKey d (ID obj) @ r))"
proof -
  from obj have l: "length (ID obj) = 16"
    by (rule length_ID_getObject)
  from ns obj len diff l
  have "doExpire tx (MetaKey d k) i expAt
      = gcDataKey tx (Namespace d) (toDBID (DBID_Bytes (DB.ID d))) ('':'' @ k) i"
    by (simp add: doExpire_def splitMetaKey_MetaKey Let_def)
  with ok have g: "gc (t tx) (DataKey d i) = Inr (t tx')"
    by (auto simp: gcDataKey_def toTikvDataKey_DataKey Let_def split: sum.splits)
  then have "t tx' = (t tx)\<lparr>kv := filter (\<lambda>e. \<not> prefix (DataKey d i) (fst e)) (kv (t tx)),
                            oplog := oplog (t tx) @ [OpGC (DataKey d i)]\<rparr>"
    by (auto simp: gc_def split: if_splits)
  then have s: "unavailable (t tx') = unavailable (t tx)"
    "kv (t tx') = filter (\<lambda>e. \<not> prefix (DataKey d i) (fst e)) (kv (t tx))"
    "oplog (t tx') = oplog (t tx) @ [OpGC (DataKey d i)]"
    by simp_all
  have "\<not> prefix (DataKey d i) (DataKey d (ID obj) @ r)" for r
    using len l diff by (intro DataKey_not_prefix_other_id) simp_all
  with s DataKey_not_prefix_MetaKey [of d i k] show ?thesis
    by (simp add: txn_Get_def map_of_filter_prefix)
qed

theorem doExpire_recreated_key_witness:
  "let tx = ex_txn [(MetaKey ex_db ''z'', encodeMeta (meta (ex_zset 1 0 []))),
                    (zsetMemberKey (DataKey ex_db ex_id) ''m'', EncodeFloat64 ex_score),
                    (zsetMemberKey (DataKey ex_db ex_old_id) ''m'', EncodeFloat64 ex_score2)];
       r = doExpire tx (MetaKey ex_db ''z'') ex_old_id 5
   in r = Inr (projr r)
      \<and> oplog (t (projr r)) = [OpGC (DataKey ex_db ex_old_id)]
      \<and> txn_Get (t (projr r)) (MetaKey ex_db ''z'') = Inr (encodeMeta (meta (ex_zset 1 0 [])))
      \<and> txn_Get (t (projr r)) (zsetMemberKey (DataKey ex_db ex_id) ''m'') = Inr (EncodeFloat64 ex_score)
      \<and> txn_Get (t (projr r)) (zsetMemberKey (DataKey ex_db ex_old_id) ''m'') = Inl ErrNotFound"
proof -
  let ?m = "meta (ex_zset 1 0 [])"
  let ?tx = "ex_txn [(MetaKey ex_db ''z'', encodeMeta ?m),
                    (zsetMemberKey (DataKey ex_db ex_id) ''m'', EncodeFloat64 ex_score),
                    (zsetMemberKey (DataKey ex_db ex_old_id) ''m'', EncodeFloat64 ex_score2)]"
  let ?r = "doExpire ?tx (MetaKey ex_db ''z'') ex_old_id 5"
  have ns: "CHR '':'' \<notin> set (Namespace ex_db)"
    by (simp add: ex_db_def)
  have dec: "DecodeObject (encodeMeta ?m) = Inr (Object.truncate ?m)"
    unfolding encodeMeta_def
    by (rule DecodeObject_EncodeObject)
      (simp_all add: ex_zset_def ex_id_def ObjectZSet_def ObjectEncodingHT_def)
  then have obj: "getObject ?tx (MetaKey ex_db ''z'') = Inr (Object.truncate ?m)"
    by (simp add: getObject_def txn_Get_def ex_txn_def)
  have i: "length ex_old_id = 16" "ex_old_id \<noteq> ID (Object.truncate ?m)"
    by (simp_all add: ex_old_id_def ex_zset_def Object.truncate_def ex_id_def)
  have "?r = gcDataKey ?tx (Namespace ex_db) (toDBID (DBID_Bytes (DB.ID ex_db))) ('':'' @ ''z'') ex_old_id"
    using i obj by (simp add: doExpire_def splitMetaKey_MetaKey [OF ns] Let_def
        Object.truncate_def ex_zset_def ex_id_def)
  then have ok: "?r = Inr (projr ?r)"
    by (simp add: gcDataKey_def gc_def ex_txn_def Let_def)
  note th = doExpire_recreated_key [OF ns obj i ok]
  have idm: "ID (Object.truncate ?m) = ex_id"
    by (simp add: Object.truncate_def ex_zset_def)
  have tx: "oplog (t ?tx) = []" "unavailable (t ?tx) = (\<lambda>k. False)"
    "txn_Get (t ?tx) (MetaKey ex_db ''z'') = Inr (encodeMeta ?m)"
    "txn_Get (t ?tx) (DataKey ex_db ex_id @ '':m'') = Inr (EncodeFloat64 ex_score)"
    by (simp_all add: txn_Get_def ex_txn_def zsetMemberKey_def MetaKey_def DataKey_def)
  from th [THEN conjunct1] have 1: "oplog (t (projr ?r)) = [OpGC (DataKey ex_db ex_old_id)]"
    by (simp only: tx append_Nil)
  from th [THEN conjunct2, THEN conjunct2, THEN conjunct2, THEN conjunct1]
  have 2: "txn_Get (t (projr ?r)) (MetaKey ex_db ''z'') = Inr (encodeMeta ?m)"
    by (simp only: tx)
  from th [THEN conjunct2, THEN conjunct2, THEN conjunct2, THEN conjunct2, THEN spec, of "'':m''"]
  have "txn_Get (t (projr ?r)) (DataKey ex_db ex_id @ '':m'') = Inr (EncodeFloat64 ex_score)"
    by (simp only: tx idm)
  moreover have "zsetMemberKey (DataKey ex_db ex_id) ''m'' = DataKey ex_db ex_id @ '':m''"
    by (simp add: zsetMemberKey_def)
  ultimately have 3: "txn_Get (t (projr ?r)) (zsetMemberKey (DataKey ex_db ex_id) ''m'')
      = Inr (EncodeFloat64 ex_score)"
    by (simp only:)
  from th [THEN conjunct2, THEN conjunct1]
  have u: "unavailable (t (projr ?r)) = (\<lambda>k. False)"
    by (simp only: tx)
  from th [THEN conjunct2, THEN conjunct2, THEN conjunct1]
  have "map_of (kv (t (projr ?r))) (zsetMemberKey (DataKey ex_db ex_old_id) ''m'') = None"
    by (simp add: map_of_filter_prefix zsetMemberKey_def)
  with u have 4: "txn_Get (t (projr ?r)) (zsetMemberKey (DataKey ex_db ex_old_id) ''m'') = Inl ErrNotFound"
    by (simp add: txn_Get_def)
  from ok 1 2 3 4 show ?thesis
    by (simp only: Let_def)
qed

subsection \<open>The weight of the rate limiter\<close>













end
